theory Spec2Isabelle
  imports Main "HOL-Library.Word"
begin

unbundle bit_operations_syntax

section \<open>The assembler (src/app/assembly/assembler.ts)\<close>

subsection \<open>Parsed input\<close>

text \<open>
  The grammar (asm-parser.js) is outside the sources; the assembler only reads fields of
  the tree it returns. The tree is modelled field by field. JavaScript numbers are
  \<open>int\<close>, \<open>null\<close> is \<open>None\<close>. An operand is a tagged object; the tag \<open>Cast\<close>
  wraps another operand together with a size. The presence of the property \<open>deref\<close>
  (tested with \<open>_.has\<close>) is a boolean.
\<close>

datatype tag = Reg | Constant | Memory | Label | CastTag

datatype operand =
    Cast int operand
  | RegOperand string
  | ConstantOperand int bool
  | MemoryOperand "string option" "string option" "int option" "int option"
  | LabelOperand string bool

record label_node =
  label_value :: string
  label_local :: bool

record instruction_node =
  instr_type :: string
  instr_name :: string
  instr_operands :: "operand list"

record text_line =
  text_label :: "label_node option"
  text_instruction :: "instruction_node option"

datatype constant_node = StringConstant string | NumberConstant int | OtherConstant

record data_line =
  data_label :: "label_node option"
  data_size :: "int option"
  data_constants :: "constant_node list"

text \<open>An entry of \<open>parsedProgram.text\<close> or \<open>parsedProgram.data\<close>: \<open>location.start.line\<close>
  and \<open>line\<close>.\<close>

record 'a located =
  start_line :: int
  line_of :: 'a

record parsed_program =
  parsed_text :: "text_line located list"
  parsed_data :: "data_line located list"

subsection \<open>Failures\<close>

text \<open>
  \<open>AssemblyException(message, line = 0, data = {})\<close>. The data of an exception is the
  parsed line it was raised for, or the empty object. Every other failure of the
  JavaScript run time that the assembler can reach is a \<open>TypeError\<close>: reading a
  property of \<open>undefined\<close> or \<open>null\<close>. \<open>RangeError\<close> is the failure of an access
  outside a memory block, which only the CPU can reach.
\<close>

datatype line_data = NoData | DataLine data_line | TextLine text_line

datatype error = AssemblyException string int line_data | TypeError string | RangeError string

subsection \<open>Dictionaries and \<open>_.has\<close>\<close>

text \<open>
  The assembler asks \<open>_.has(object, name)\<close> of three dictionaries: the label table,
  \<open>REGISTER_INDEX\<close> and \<open>InstructionMapping\<close>. In lodash 4 this is a path lookup. A
  name that is an own key of the dictionary is found. Any other name that contains a dot
  is cut at its dots (\<open>split_dots\<close>) and followed from own property to own property,
  through the value stored under the first part. A name without a dot is found only as
  an own key. Names are taken to contain no square brackets, which lodash would read as
  further path syntax.

  \<open>jsval\<close> is what such a path can walk through: an object with its own properties, a
  string (own properties \<open>length\<close> and its indices), a number or a boolean (none).
\<close>

datatype jsval = JObject "(string \<times> jsval) list" | JString string | JNumber int | JBoolean bool

fun split_dots :: "string \<Rightarrow> string list" where
  "split_dots [] = [[]]"
| "split_dots (c # cs) =
     (if c = CHR ''.'' then [] # split_dots cs
      else (case split_dots cs of [] \<Rightarrow> [[c]] | p # ps \<Rightarrow> (c # p) # ps))"

definition is_digit :: "char \<Rightarrow> bool" where
  "is_digit c = (48 \<le> (of_char c :: nat) \<and> (of_char c :: nat) \<le> 57)"

definition decimal_value :: "string \<Rightarrow> nat" where
  "decimal_value k = foldl (\<lambda>n c. 10 * n + ((of_char c :: nat) - 48)) 0 k"

text \<open>An index of a string of length \<open>n\<close>: the decimal numeral, without leading zeros, of
  a number below \<open>n\<close>.\<close>

definition is_index :: "string \<Rightarrow> nat \<Rightarrow> bool" where
  "is_index k n =
     (k \<noteq> [] \<and> list_all is_digit k \<and> (k = ''0'' \<or> hd k \<noteq> CHR ''0'') \<and> decimal_value k < n)"

fun own_property :: "jsval \<Rightarrow> string \<Rightarrow> jsval option" where
  "own_property (JObject ps) k = map_of ps k"
| "own_property (JString x) k =
     (if k = ''length'' then Some (JNumber (int (length x)))
      else if is_index k (length x) then Some (JString [x ! decimal_value k])
      else None)"
| "own_property (JNumber n) k = None"
| "own_property (JBoolean b) k = None"

fun hasPath :: "jsval \<Rightarrow> string list \<Rightarrow> bool" where
  "hasPath v [] = True"
| "hasPath v (k # ks) = (case own_property v k of None \<Rightarrow> False | Some w \<Rightarrow> hasPath w ks)"

text \<open>\<open>_.has\<close> of a dictionary, given for each stored value which paths lead on from
  it.\<close>

definition lodash_has :: "(string \<times> 'v) list \<Rightarrow> ('v \<Rightarrow> string list \<Rightarrow> bool) \<Rightarrow> string \<Rightarrow> bool" where
  "lodash_has obj below s =
     (if map_of obj s \<noteq> None then True
      else if CHR ''.'' \<in> set s then
        (case split_dots s of
           [] \<Rightarrow> False
         | k # ks \<Rightarrow> (case map_of obj k of None \<Rightarrow> False | Some v \<Rightarrow> below v ks))
      else False)"

subsection \<open>The register table (REGISTER\_INDEX of the CPU module)\<close>

record RegisterInfo =
  reg_id :: nat
  reg_bank :: nat
  reg_byteSize :: nat
  reg_index :: nat

definition RegisterInfo_new :: "nat \<Rightarrow> nat \<Rightarrow> nat \<Rightarrow> nat \<Rightarrow> RegisterInfo" where
  "RegisterInfo_new i b s x = \<lparr>reg_id = i, reg_bank = b, reg_byteSize = s, reg_index = x\<rparr>"

text \<open>The own properties of a \<open>RegisterInfo\<close> are its four private fields; \<open>id\<close>,
  \<open>bank\<close>, \<open>byteSize\<close> and \<open>index\<close> are accessors of the prototype.\<close>

definition register_object :: "RegisterInfo \<Rightarrow> jsval" where
  "register_object r =
     JObject [(''_id'', JNumber (int (reg_id r))), (''_bank'', JNumber (int (reg_bank r))),
              (''_byteSize'', JNumber (int (reg_byteSize r))), (''_index'', JNumber (int (reg_index r)))]"

definition REGISTER_INDEX :: "(string \<times> RegisterInfo) list" where
  "REGISTER_INDEX =
    [(''NULL'', RegisterInfo_new 0 0 4 0),
     (''EIP'', RegisterInfo_new 1 1 4 0),
     (''EBP'', RegisterInfo_new 2 2 4 0),
     (''ESP'', RegisterInfo_new 3 3 4 0),
     (''EAX'', RegisterInfo_new 20 4 4 0),
     (''AX'', RegisterInfo_new 21 4 2 0),
     (''AH'', RegisterInfo_new 22 4 1 1),
     (''AL'', RegisterInfo_new 23 4 1 0),
     (''EBX'', RegisterInfo_new 24 5 4 0),
     (''BX'', RegisterInfo_new 25 5 2 0),
     (''BH'', RegisterInfo_new 26 5 1 1),
     (''BL'', RegisterInfo_new 27 5 1 0),
     (''ECX'', RegisterInfo_new 28 6 4 0),
     (''CX'', RegisterInfo_new 29 6 2 0),
     (''CH'', RegisterInfo_new 30 6 1 1),
     (''CL'', RegisterInfo_new 31 6 1 0)]"

subsection \<open>Labels and the label resolver\<close>

record Label =
  lbl_name :: string
  lbl_local :: bool
  lbl_address :: int

text \<open>
  \<open>labels\<close> is a JavaScript object used as a dictionary. \<open>_.findLast\<close> walks its values
  from the last inserted key to the first, so the order of insertion matters and the
  dictionary is an association list, oldest entry first. \<open>addLabel\<close> only ever stores
  under a key that \<open>hasLabel\<close> has just found absent, so a store appends. A key that
  is an array index (which JavaScript enumerates before the others) or the key
  \<open>__proto__\<close> is taken not to occur. The own properties of a \<open>Label\<close> are the three
  parameter properties of its constructor.
  \<open>unresolvedParameters\<close> holds the label operands waiting for their address: size,
  label name and dereference flag of each.
\<close>

record LabelResolver =
  labels :: "(string \<times> Label) list"
  unresolvedParameters :: "(int \<times> string \<times> bool) list"

definition label_object :: "Label \<Rightarrow> jsval" where
  "label_object l =
     JObject [(''name'', JString (lbl_name l)), (''local'', JBoolean (lbl_local l)),
              (''address'', JNumber (lbl_address l))]"

definition hasLabel :: "LabelResolver \<Rightarrow> string \<Rightarrow> bool" where
  "hasLabel r l = lodash_has (labels r) (\<lambda>lb. hasPath (label_object lb)) l"

definition findPreviousGlobalLabel :: "LabelResolver \<Rightarrow> int \<Rightarrow> Label option" where
  "findPreviousGlobalLabel r a =
     find (\<lambda>l. \<not> lbl_local l \<and> lbl_address l \<le> a) (rev (map snd (labels r)))"

definition normalizeLabelName :: "LabelResolver \<Rightarrow> string \<Rightarrow> bool \<Rightarrow> int \<Rightarrow> error + string" where
  "normalizeLabelName r l loc a =
     (if loc then
        (case findPreviousGlobalLabel r a of
           None \<Rightarrow> Inl (AssemblyException (''Local label without a global label: '' @ l) 0 NoData)
         | Some previousLabel \<Rightarrow> Inr (lbl_name previousLabel @ ''.'' @ l))
      else Inr l)"

definition addLabel :: "LabelResolver \<Rightarrow> int \<Rightarrow> string \<Rightarrow> bool \<Rightarrow> error + LabelResolver" where
  "addLabel r a l loc =
     (case normalizeLabelName r l loc a of
        Inl e \<Rightarrow> Inl e
      | Inr q \<Rightarrow>
          if hasLabel r q then Inl (AssemblyException (''Duplicate label found: '' @ q) 0 NoData)
          else Inr (r\<lparr>labels := labels r @ [(q, \<lparr>lbl_name = q, lbl_local = loc, lbl_address = a\<rparr>)]\<rparr>))"

definition markUnresolvedParameter :: "LabelResolver \<Rightarrow> int \<times> string \<times> bool \<Rightarrow> LabelResolver" where
  "markUnresolvedParameter r p = r\<lparr>unresolvedParameters := unresolvedParameters r @ [p]\<rparr>"

text \<open>
  \<open>resolveAddresses\<close> writes an address into every recorded operand, in order, and
  stops at the first unknown name. The result lists the writes: operand and address.
  A name that \<open>_.has\<close> finds by a path is not a key: \<open>this.labels[name]\<close> is
  \<open>undefined\<close> and reading its address raises a \<open>TypeError\<close>.
\<close>

fun resolveEach :: "(string \<times> Label) list \<Rightarrow> (int \<times> string \<times> bool) list
    \<Rightarrow> error + ((int \<times> string \<times> bool) \<times> int) list" where
  "resolveEach ls [] = Inr []"
| "resolveEach ls (p # ps) =
     (if \<not> lodash_has ls (\<lambda>lb. hasPath (label_object lb)) (fst (snd p))
      then Inl (AssemblyException (''Unknown label '' @ fst (snd p)) 0 NoData)
      else
        (case map_of ls (fst (snd p)) of
           None \<Rightarrow> Inl (TypeError ''Cannot read property address of undefined'')
         | Some lb \<Rightarrow>
             (case resolveEach ls ps of
                Inl e \<Rightarrow> Inl e
              | Inr ws \<Rightarrow> Inr ((p, lbl_address lb) # ws))))"

definition resolveAddresses :: "LabelResolver \<Rightarrow> error + ((int \<times> string \<times> bool) \<times> int) list" where
  "resolveAddresses r = resolveEach (labels r) (unresolvedParameters r)"

subsection \<open>Instructions and encoded operands\<close>

text \<open>
  \<open>InstructionMapping\<close> names three instruction classes. The classes themselves
  (mov, jump, interrupt) are outside the sources; the assembler calls two of their
  methods, \<open>getValidParameters\<close> and \<open>toString\<close>, which are parameters of the model.
  So is \<open>hasClassPath\<close>: the paths of own properties that lead on from a class object,
  which \<open>_.has(InstructionMapping, name)\<close> follows for a name with a dot.
\<close>

datatype Instruction = Move | Jump | Interrupt

definition InstructionMapping :: "(string \<times> Instruction) list" where
  "InstructionMapping = [(''MOV'', Move), (''JMP'', Jump), (''INT'', Interrupt)]"

record instruction_classes =
  getValidParameters :: "Instruction \<Rightarrow> tag list list"
  toString :: "Instruction \<Rightarrow> string"
  hasClassPath :: "Instruction \<Rightarrow> string list \<Rightarrow> bool"

datatype Parameter =
    RegisterParameter int nat
  | ConstantParameter int int bool
  | MemoryParameter int nat nat int int
  | LabelParameter int string bool

record EncodedInstruction =
  enc_instruction :: Instruction
  enc_parameters :: "Parameter list"

record MemoryDefinition =
  def_address :: int
  def_size :: int
  def_value :: int

text \<open>
  Modelled from the spec: \<open>LineMap\<close> (program.ts is not among the sources), "a
  bidirectional mapping instruction-address \<leftrightarrow> source-line-number; built during the
  text-segment pass". \<open>mapLine\<close> records a pair of address and line, and
  \<open>getAddressByLine\<close> gives the address recorded for a line, or \<open>null\<close>.
\<close>

type_synonym LineMap = "(int \<times> int) list"

definition mapLine :: "LineMap \<Rightarrow> int \<Rightarrow> int \<Rightarrow> LineMap" where
  "mapLine m a l = m @ [(a, l)]"

definition getAddressByLine :: "LineMap \<Rightarrow> int \<Rightarrow> int option" where
  "getAddressByLine m l = map_option fst (find (\<lambda>p. snd p = l) m)"

record Program =
  instructions :: "EncodedInstruction list"
  memoryDefinitions :: "MemoryDefinition list"
  prog_lineMap :: LineMap

record AssemblyData =
  textAddress :: int
  dataAddress :: int
  lineMap :: LineMap
  labelResolver :: LabelResolver

definition AssemblyData_new :: AssemblyData where
  "AssemblyData_new =
     \<lparr>textAddress = 0, dataAddress = 0, lineMap = [],
      labelResolver = \<lparr>labels = [], unresolvedParameters = []\<rparr>\<rparr>"

datatype MemoryType = Data | Text

definition getAddress :: "AssemblyData \<Rightarrow> MemoryType \<Rightarrow> int" where
  "getAddress d t = (if t = Data then dataAddress d else textAddress d)"

subsection \<open>The class Assembler\<close>

definition assembleLabel :: "label_node \<Rightarrow> AssemblyData \<Rightarrow> MemoryType \<Rightarrow> error + AssemblyData" where
  "assembleLabel l d t =
     (case addLabel (labelResolver d) (getAddress d t) (label_value l) (label_local l) of
        Inl e \<Rightarrow> Inl e
      | Inr r \<Rightarrow> Inr (d\<lparr>labelResolver := r\<rparr>))"

fun getInnerParameter :: "operand \<Rightarrow> operand" where
  "getInnerParameter (Cast s v) = getInnerParameter v"
| "getInnerParameter v = v"

fun getParameterSize :: "operand \<Rightarrow> int" where
  "getParameterSize (Cast s v) = (if s > 0 then s else 4)"
| "getParameterSize v = 4"

fun operand_tag :: "operand \<Rightarrow> tag" where
  "operand_tag (Cast s v) = CastTag"
| "operand_tag (RegOperand n) = Reg"
| "operand_tag (ConstantOperand v d) = Constant"
| "operand_tag (MemoryOperand b i m c) = Memory"
| "operand_tag (LabelOperand v d) = Label"

definition checkParameterCompatibility ::
    "instruction_classes \<Rightarrow> Instruction \<Rightarrow> operand list \<Rightarrow> error + unit" where
  "checkParameterCompatibility ic i ops =
     (let parameterMask = map (\<lambda>x. operand_tag (getInnerParameter x)) ops in
      if parameterMask \<in> set (getValidParameters ic i) then Inr ()
      else Inl (AssemblyException
                  (''Unknown parameter combination for instruction '' @ toString ic i) 0 NoData))"

text \<open>\<open>parseRegisterName\<close> reads \<open>operand.name\<close>; its argument is \<open>null\<close> when a memory
  operand has no base register.\<close>

definition parseRegisterName :: "string option \<Rightarrow> error + string" where
  "parseRegisterName x =
     (case x of
        None \<Rightarrow> Inl (TypeError ''Cannot read property name of null'')
      | Some registerName \<Rightarrow>
          if \<not> lodash_has REGISTER_INDEX (\<lambda>r. hasPath (register_object r)) registerName
          then Inl (AssemblyException (''Unknown register '' @ registerName) 0 NoData)
          else Inr registerName)"

text \<open>\<open>REGISTER_INDEX[name].id\<close>, which raises a \<open>TypeError\<close> for a name that is not a
  key of the table.\<close>

definition registerId :: "string \<Rightarrow> error + nat" where
  "registerId n =
     (case map_of REGISTER_INDEX n of
        None \<Rightarrow> Inl (TypeError ''Cannot read property id of undefined'')
      | Some r \<Rightarrow> Inr (reg_id r))"

definition parseRegisterParameter :: "int \<Rightarrow> string \<Rightarrow> error + Parameter" where
  "parseRegisterParameter sz n =
     (case parseRegisterName (Some n) of
        Inl e \<Rightarrow> Inl e
      | Inr registerName \<Rightarrow>
          (case registerId registerName of
             Inl e \<Rightarrow> Inl e
           | Inr i \<Rightarrow> Inr (RegisterParameter sz i)))"

definition parseConstantParameter :: "int \<Rightarrow> int \<Rightarrow> bool \<Rightarrow> Parameter" where
  "parseConstantParameter sz v deref = ConstantParameter sz v deref"

definition parseMemoryParameter ::
    "int \<Rightarrow> string option \<Rightarrow> string option \<Rightarrow> int option \<Rightarrow> int option \<Rightarrow> error + Parameter" where
  "parseMemoryParameter sz baseRegister indexRegister multiplier constant =
     (case parseRegisterName baseRegister of
        Inl e \<Rightarrow> Inl e
      | Inr bn \<Rightarrow>
     (case registerId bn of
        Inl e \<Rightarrow> Inl e
      | Inr baseRegId \<Rightarrow>
     (case (case indexRegister of
              None \<Rightarrow> Inr 0
            | Some x \<Rightarrow>
                (case parseRegisterName (Some x) of
                   Inl e \<Rightarrow> Inl e
                 | Inr xn \<Rightarrow> registerId xn)) of
        Inl e \<Rightarrow> Inl e
      | Inr indexRegId \<Rightarrow>
          Inr (MemoryParameter sz baseRegId indexRegId
                 (case multiplier of None \<Rightarrow> 0 | Some m \<Rightarrow> m)
                 (case constant of None \<Rightarrow> 0 | Some c \<Rightarrow> c)))))"

text \<open>
  \<open>parseLabelParameter(size, operand, assemblyData)\<close> has a third parameter. An
  argument that the caller leaves out is \<open>undefined\<close>, here \<open>None\<close>, and reading
  \<open>assemblyData.labelResolver\<close> then raises a \<open>TypeError\<close>.
\<close>

definition parseLabelParameter ::
    "int \<Rightarrow> string \<Rightarrow> bool \<Rightarrow> AssemblyData option \<Rightarrow> error + Parameter \<times> AssemblyData" where
  "parseLabelParameter sz v deref assemblyData =
     (case assemblyData of
        None \<Rightarrow> Inl (TypeError ''Cannot read property labelResolver of undefined'')
      | Some d \<Rightarrow>
          Inr (LabelParameter sz v deref,
               d\<lparr>labelResolver := markUnresolvedParameter (labelResolver d) (sz, v, deref)\<rparr>))"

text \<open>
  The function that \<open>loadParameters\<close> maps over the operands:
  \<open>mapping[innerOperand.tag].call(this, this.getParameterSize(operand), innerOperand)\<close>.
  Each of the four parsers is called with two arguments, so \<open>parseLabelParameter\<close>
  receives no assembly data. \<open>mapping\<close> has no entry for the tag \<open>Cast\<close>.
\<close>

definition loadParameter :: "operand \<Rightarrow> error + Parameter" where
  "loadParameter x =
     (let innerOperand = getInnerParameter x; sz = getParameterSize x in
      case innerOperand of
        RegOperand n \<Rightarrow> parseRegisterParameter sz n
      | ConstantOperand v d \<Rightarrow> Inr (parseConstantParameter sz v d)
      | MemoryOperand b i m c \<Rightarrow> parseMemoryParameter sz b i m c
      | LabelOperand v d \<Rightarrow>
          (case parseLabelParameter sz v d None of
             Inl e \<Rightarrow> Inl e
           | Inr r \<Rightarrow> Inr (fst r))
      | Cast s v \<Rightarrow> Inl (TypeError ''Cannot read property call of undefined''))"

text \<open>\<open>_.map\<close> with a function that may raise: the first failure ends the walk.\<close>

fun map_raising :: "('a \<Rightarrow> error + 'b) \<Rightarrow> 'a list \<Rightarrow> error + 'b list" where
  "map_raising f [] = Inr []"
| "map_raising f (x # xs) =
     (case f x of
        Inl e \<Rightarrow> Inl e
      | Inr y \<Rightarrow> (case map_raising f xs of Inl e \<Rightarrow> Inl e | Inr ys \<Rightarrow> Inr (y # ys)))"

definition loadParameters ::
    "instruction_classes \<Rightarrow> Instruction \<Rightarrow> operand list \<Rightarrow> error + Parameter list" where
  "loadParameters ic i ops =
     (case checkParameterCompatibility ic i ops of
        Inl e \<Rightarrow> Inl e
      | Inr u \<Rightarrow> map_raising loadParameter ops)"

definition parseInstruction ::
    "instruction_classes \<Rightarrow> instruction_node \<Rightarrow> error + EncodedInstruction" where
  "parseInstruction ic n =
     (if \<not> lodash_has InstructionMapping (hasClassPath ic) (instr_name n)
      then Inl (AssemblyException (''Unknown instruction type '' @ instr_type n) 0 NoData)
      else
        (case map_of InstructionMapping (instr_name n) of
           None \<Rightarrow> Inl (TypeError ''undefined is not a constructor'')
         | Some instructionInstance \<Rightarrow>
             (case loadParameters ic instructionInstance (instr_operands n) of
                Inl e \<Rightarrow> Inl e
              | Inr ps \<Rightarrow> Inr \<lparr>enc_instruction = instructionInstance, enc_parameters = ps\<rparr>)))"

definition assembleInstruction ::
    "instruction_classes \<Rightarrow> text_line \<Rightarrow> AssemblyData
     \<Rightarrow> error + EncodedInstruction option \<times> AssemblyData" where
  "assembleInstruction ic l d =
     (case (case text_label l of None \<Rightarrow> Inr d | Some lb \<Rightarrow> assembleLabel lb d Text) of
        Inl e \<Rightarrow> Inl e
      | Inr d' \<Rightarrow>
          (case text_instruction l of
             None \<Rightarrow> Inr (None, d')
           | Some n \<Rightarrow>
               (case parseInstruction ic n of
                  Inl e \<Rightarrow> Inl e
                | Inr i \<Rightarrow> Inr (Some i, d'))))"

text \<open>
  The \<open>catch\<close> block of both passes: an \<open>AssemblyException\<close> is raised again with the
  line number and the parsed line, anything else is raised again as it is. The argument
  is the variable \<open>line\<close> of the pass, \<open>location.start.line - 1\<close>.
\<close>

definition rethrow :: "int \<Rightarrow> line_data \<Rightarrow> error \<Rightarrow> error" where
  "rethrow ln d e =
     (case e of
        AssemblyException m l0 d0 \<Rightarrow> AssemblyException m (ln + 1) d
      | TypeError m \<Rightarrow> TypeError m
      | RangeError m \<Rightarrow> RangeError m)"

fun assembleTextLoop ::
    "instruction_classes \<Rightarrow> text_line located list \<Rightarrow> EncodedInstruction list \<Rightarrow> AssemblyData
     \<Rightarrow> error + EncodedInstruction list \<times> AssemblyData" where
  "assembleTextLoop ic [] ins d = Inr (ins, d)"
| "assembleTextLoop ic (t # ts) ins d =
     (let ln = start_line t - 1 in
      case assembleInstruction ic (line_of t) d of
        Inl e \<Rightarrow> Inl (rethrow ln (TextLine (line_of t)) e)
      | Inr r \<Rightarrow>
          (case fst r of
             None \<Rightarrow> assembleTextLoop ic ts ins (snd r)
           | Some i \<Rightarrow>
               assembleTextLoop ic ts (ins @ [i])
                 ((snd r)\<lparr>lineMap := mapLine (lineMap (snd r)) (textAddress (snd r)) ln,
                          textAddress := textAddress (snd r) + 1\<rparr>)))"

definition assembleTextSegment ::
    "instruction_classes \<Rightarrow> text_line located list \<Rightarrow> AssemblyData
     \<Rightarrow> error + EncodedInstruction list \<times> AssemblyData" where
  "assembleTextSegment ic textLines d = assembleTextLoop ic textLines [] d"

text \<open>The two inner loops of \<open>assembleMemoryDefinitions\<close>: over the characters of a
  string constant, and over the constants of a line. Each returns the definitions it
  pushed and the data address it reached.\<close>

fun defineCharacters :: "int \<Rightarrow> string \<Rightarrow> int \<Rightarrow> MemoryDefinition list \<times> int" where
  "defineCharacters sz [] a = ([], a)"
| "defineCharacters sz (c # cs) a =
     (let r = defineCharacters sz cs (a + sz) in
      (\<lparr>def_address = a, def_size = sz, def_value = of_char c\<rparr> # fst r, snd r))"

fun defineConstants :: "int \<Rightarrow> constant_node list \<Rightarrow> int \<Rightarrow> MemoryDefinition list \<times> int" where
  "defineConstants sz [] a = ([], a)"
| "defineConstants sz (StringConstant characters # cs) a =
     (let r = defineCharacters sz characters a; r' = defineConstants sz cs (snd r) in
      (fst r @ fst r', snd r'))"
| "defineConstants sz (NumberConstant v # cs) a =
     (let r' = defineConstants sz cs (a + sz) in
      (\<lparr>def_address = a, def_size = sz, def_value = v\<rparr> # fst r', snd r'))"
| "defineConstants sz (OtherConstant # cs) a = defineConstants sz cs a"

definition assembleMemoryDefinitions ::
    "data_line \<Rightarrow> AssemblyData \<Rightarrow> error + MemoryDefinition list \<times> AssemblyData" where
  "assembleMemoryDefinitions l d =
     (case (case data_label l of None \<Rightarrow> Inr d | Some lb \<Rightarrow> assembleLabel lb d Data) of
        Inl e \<Rightarrow> Inl e
      | Inr d' \<Rightarrow>
          (case data_size l of
             None \<Rightarrow> Inr ([], d')
           | Some sz \<Rightarrow>
               (let r = defineConstants sz (data_constants l) (dataAddress d') in
                Inr (fst r, d'\<lparr>dataAddress := snd r\<rparr>))))"

fun assembleDataLoop ::
    "data_line located list \<Rightarrow> MemoryDefinition list \<Rightarrow> AssemblyData
     \<Rightarrow> error + MemoryDefinition list \<times> AssemblyData" where
  "assembleDataLoop [] defs d = Inr (defs, d)"
| "assembleDataLoop (t # ts) defs d =
     (let ln = start_line t - 1 in
      case assembleMemoryDefinitions (line_of t) d of
        Inl e \<Rightarrow> Inl (rethrow ln (DataLine (line_of t)) e)
      | Inr r \<Rightarrow> assembleDataLoop ts (defs @ fst r) (snd r))"

definition assembleDataSegment ::
    "data_line located list \<Rightarrow> AssemblyData \<Rightarrow> error + MemoryDefinition list \<times> AssemblyData" where
  "assembleDataSegment dataLines d = assembleDataLoop dataLines [] d"

text \<open>
  \<open>assemble\<close>, from the result of \<open>parser.parse\<close>: either the message and line of the
  parser's failure, or the parsed program. \<open>resolveAddresses\<close> writes into the operand
  objects that \<open>markUnresolvedParameter\<close> recorded; the only caller of
  \<open>markUnresolvedParameter\<close> is \<open>parseLabelParameter\<close>.
\<close>

definition assemble ::
    "instruction_classes \<Rightarrow> (string \<times> int) + parsed_program \<Rightarrow> error + Program" where
  "assemble ic parsed =
     (case parsed of
        Inl f \<Rightarrow> Inl (AssemblyException (fst f) (snd f) NoData)
      | Inr parsedProgram \<Rightarrow>
     (case assembleDataSegment (parsed_data parsedProgram) AssemblyData_new of
        Inl e \<Rightarrow> Inl e
      | Inr rd \<Rightarrow>
     (case assembleTextSegment ic (parsed_text parsedProgram) (snd rd) of
        Inl e \<Rightarrow> Inl e
      | Inr rt \<Rightarrow>
     (case resolveAddresses (labelResolver (snd rt)) of
        Inl e \<Rightarrow> Inl e
      | Inr ws \<Rightarrow>
          Inr \<lparr>instructions = fst rt, memoryDefinitions = fst rd,
               prog_lineMap = lineMap (snd rt)\<rparr>))))"

section \<open>The CPU (src/unnamed/part\_000, the module emulation/cpu)\<close>

subsection \<open>Addressable storage\<close>

text \<open>
  Modelled from the spec: \<open>MemoryBlock\<close> and \<open>MemoryView\<close> (memory-block.ts and
  memory-view.ts are not among the sources). A block is "a fixed-size byte buffer with
  typed, possibly-overlapping views ... supporting sized reads/writes and address
  arithmetic". A view is a byte range of a block: "a write through a narrower view must
  affect only its own byte range and leave the remaining bytes of the bank unchanged; a
  read through any view returns exactly its byte range reinterpreted as an integer".
  The widest view has four bytes, so the value read or written through a view is a
  32-bit word; the byte at the lowest address is the least significant one, which is
  what the table \<open>REGISTER_INDEX\<close> assumes when it puts \<open>AL\<close> at offset 0 and \<open>AH\<close> at
  offset 1 of the bank of \<open>EAX\<close>. A write keeps the low bytes of the value. Main memory is
  "bounds-checked": \<open>load\<close> of a range that leaves the block fails. A new block is filled
  with zero bytes.
\<close>

type_synonym byte = "8 word"

record MemoryBlock =
  block_size :: nat
  block_bytes :: "nat \<Rightarrow> byte"

definition MemoryBlock_new :: "nat \<Rightarrow> MemoryBlock" where
  "MemoryBlock_new n = \<lparr>block_size = n, block_bytes = (\<lambda>a. 0)\<rparr>"

fun read_bytes :: "(nat \<Rightarrow> byte) \<Rightarrow> nat \<Rightarrow> nat \<Rightarrow> 32 word" where
  "read_bytes f i 0 = 0"
| "read_bytes f i (Suc n) = ucast (f i) OR push_bit 8 (read_bytes f (Suc i) n)"

fun write_bytes :: "(nat \<Rightarrow> byte) \<Rightarrow> nat \<Rightarrow> nat \<Rightarrow> 32 word \<Rightarrow> (nat \<Rightarrow> byte)" where
  "write_bytes f i 0 v = f"
| "write_bytes f i (Suc n) v = write_bytes (f(i := ucast v)) (Suc i) n (drop_bit 8 v)"

text \<open>A view names its block: one of the register banks of the CPU, or main memory.\<close>

datatype block_ref = RegisterBank nat | MainMemory

record MemoryView =
  view_block :: block_ref
  view_size :: nat
  view_index :: nat

subsection \<open>The state of a CPU\<close>

record StatusWord =
  sw_carry :: bool
  sw_zero :: bool
  sw_overflow :: bool
  sw_signum :: bool
  sw_direction :: bool

text \<open>
  The fields of the class, without the program (a parameter of the functions below) and
  the ALU (which has no state). \<open>registers\<close> holds the ten banks by number.
  \<open>_breakpoints\<close> has no initial value: it is \<open>undefined\<close> (\<open>None\<close>) until the setter
  runs, and then a list of what \<open>getAddressByLine\<close> returned, numbers or \<open>null\<close>.
  What the CPU does to its host is recorded in two more fields: the timer handles passed
  to \<open>clearTimeout\<close>, and the number of times the exit observers were notified.
\<close>

record CPU =
  status :: StatusWord
  registers :: "nat \<Rightarrow> MemoryBlock"
  memory :: MemoryBlock
  running :: bool
  breakpoints :: "int option list option"
  stoppedOnBreakpoint :: bool
  scheduleTimeout :: "nat option"
  clearedTimeouts :: "nat list"
  exitNotifications :: nat

text \<open>
  Modelled from the spec: the methods \<open>getValue\<close>, \<open>setValue\<close> and \<open>add\<close> of
  \<open>MemoryView\<close> and the method \<open>load\<close> of \<open>MemoryBlock\<close>, on the state of the CPU
  that holds the blocks. \<open>get_block\<close> and \<open>put_block\<close> follow the reference from a
  view to its block.
\<close>

definition get_block :: "CPU \<Rightarrow> block_ref \<Rightarrow> MemoryBlock" where
  "get_block s r = (case r of RegisterBank b \<Rightarrow> registers s b | MainMemory \<Rightarrow> memory s)"

definition put_block :: "CPU \<Rightarrow> block_ref \<Rightarrow> MemoryBlock \<Rightarrow> CPU" where
  "put_block s r m =
     (case r of
        RegisterBank b \<Rightarrow> s\<lparr>registers := (registers s)(b := m)\<rparr>
      | MainMemory \<Rightarrow> s\<lparr>memory := m\<rparr>)"

definition getValue :: "CPU \<Rightarrow> MemoryView \<Rightarrow> 32 word" where
  "getValue s v = read_bytes (block_bytes (get_block s (view_block v))) (view_index v) (view_size v)"

definition setValue :: "CPU \<Rightarrow> MemoryView \<Rightarrow> 32 word \<Rightarrow> CPU" where
  "setValue s v x =
     put_block s (view_block v)
       ((get_block s (view_block v))
          \<lparr>block_bytes :=
             write_bytes (block_bytes (get_block s (view_block v))) (view_index v) (view_size v) x\<rparr>)"

definition view_add :: "CPU \<Rightarrow> MemoryView \<Rightarrow> 32 word \<Rightarrow> CPU" where
  "view_add s v n = setValue s v (getValue s v + n)"

definition load :: "CPU \<Rightarrow> 32 word \<Rightarrow> nat \<Rightarrow> error + MemoryView" where
  "load s a n =
     (if unat a + n \<le> block_size (memory s)
      then Inr \<lparr>view_block = MainMemory, view_size = n, view_index = unat a\<rparr>
      else Inl (RangeError ''Invalid memory address''))"

subsection \<open>Registers by name\<close>

text \<open>The constructor's \<open>new MemoryView(this.registers[reg.bank], reg.byteSize, reg.index)\<close>
  for every key of \<open>REGISTER_INDEX\<close>.\<close>

definition registerView :: "RegisterInfo \<Rightarrow> MemoryView" where
  "registerView r =
     \<lparr>view_block = RegisterBank (reg_bank r), view_size = reg_byteSize r, view_index = reg_index r\<rparr>"

definition registerMap :: "(string \<times> MemoryView) list" where
  "registerMap = map (\<lambda>p. (fst p, registerView (snd p))) REGISTER_INDEX"

text \<open>\<open>registerMap[name]\<close> is \<open>undefined\<close> for a name outside the table, and every caller
  calls a method of the result at once.\<close>

definition getRegisterByName :: "string \<Rightarrow> error + MemoryView" where
  "getRegisterByName n =
     (case map_of registerMap n of
        None \<Rightarrow> Inl (TypeError ''Cannot read property of undefined'')
      | Some v \<Rightarrow> Inr v)"

definition getRegisterByIndex :: "nat \<Rightarrow> error + MemoryView" where
  "getRegisterByIndex i =
     (case find (\<lambda>p. reg_id (snd p) = i) REGISTER_INDEX of
        None \<Rightarrow> Inl (TypeError ''Cannot read property of undefined'')
      | Some p \<Rightarrow> getRegisterByName (fst p))"

definition eip :: "CPU \<Rightarrow> error + 32 word" where
  "eip s = (case getRegisterByName ''EIP'' of Inl e \<Rightarrow> Inl e | Inr v \<Rightarrow> Inr (getValue s v))"

subsection \<open>The methods of the class CPU\<close>

definition reset :: "CPU \<Rightarrow> error + CPU" where
  "reset s =
     (case getRegisterByName ''EIP'' of
        Inl e \<Rightarrow> Inl e
      | Inr r1 \<Rightarrow>
     (let s1 = setValue s r1 0 in
      case getRegisterByName ''ESP'' of
        Inl e \<Rightarrow> Inl e
      | Inr r2 \<Rightarrow>
     (let s2 = setValue s1 r2 (word_of_int (int (block_size (memory s1)) - 1)) in
      case getRegisterByName ''EBP'' of
        Inl e \<Rightarrow> Inl e
      | Inr r3 \<Rightarrow> Inr (setValue s2 r3 (word_of_int (int (block_size (memory s2)) - 1))))))"

text \<open>The constructor, from the memory block it is given (the program and the tick are
  fields that no function below changes).\<close>

definition CPU_new :: "MemoryBlock \<Rightarrow> error + CPU" where
  "CPU_new m =
     reset
       \<lparr>status = \<lparr>sw_carry = False, sw_zero = False, sw_overflow = False, sw_signum = False,
                  sw_direction = False\<rparr>,
        registers = (\<lambda>b. MemoryBlock_new 4),
        memory = m,
        running = False,
        breakpoints = None,
        stoppedOnBreakpoint = False,
        scheduleTimeout = None,
        clearedTimeouts = [],
        exitNotifications = 0\<rparr>"

text \<open>
  The setter of \<open>breakpoints\<close>. The source passes the predicate \<open>value !== null\<close> to
  \<open>_.map\<close> as a third argument, and calls \<open>_.filter\<close> with the mapped list alone, so
  the filter keeps the elements that are truthy: \<open>null\<close> and the number 0 are dropped.
\<close>

definition truthy :: "int option \<Rightarrow> bool" where
  "truthy x = (case x of None \<Rightarrow> False | Some n \<Rightarrow> n \<noteq> 0)"

definition set_breakpoints :: "Program \<Rightarrow> int list \<Rightarrow> CPU \<Rightarrow> CPU" where
  "set_breakpoints p rows s =
     s\<lparr>breakpoints := Some (filter truthy (map (\<lambda>row. getAddressByLine (prog_lineMap p) row) rows))\<rparr>"

definition clearScheduledRun :: "CPU \<Rightarrow> CPU" where
  "clearScheduledRun s =
     (case scheduleTimeout s of
        None \<Rightarrow> s
      | Some h \<Rightarrow> s\<lparr>clearedTimeouts := clearedTimeouts s @ [h]\<rparr>)"

definition pause :: "CPU \<Rightarrow> CPU" where
  "pause s = clearScheduledRun (s\<lparr>running := False\<rparr>)"

definition onExit_notify :: "CPU \<Rightarrow> CPU" where
  "onExit_notify s = s\<lparr>exitNotifications := Suc (exitNotifications s)\<rparr>"

text \<open>Where the code compares the value of a register with a JavaScript number, the
  32-bit word is read as an unsigned integer.\<close>

definition isFinished :: "Program \<Rightarrow> CPU \<Rightarrow> error + bool" where
  "isFinished p s =
     (case eip s of
        Inl e \<Rightarrow> Inl e
      | Inr a \<Rightarrow> Inr (uint a \<ge> int (length (instructions p))))"

text \<open>\<open>_.includes\<close> of a collection that is \<open>undefined\<close> is false.\<close>

definition hasBreakpoint :: "CPU \<Rightarrow> error + bool" where
  "hasBreakpoint s =
     (case eip s of
        Inl e \<Rightarrow> Inl e
      | Inr a \<Rightarrow>
          Inr (case breakpoints s of None \<Rightarrow> False | Some bs \<Rightarrow> Some (uint a) \<in> set bs))"

text \<open>
  The instruction classes and \<open>Program.getInstructionByAddress\<close> are outside the
  sources. What \<open>loadInstruction(eip)\<close> followed by \<open>instruction.execute(this)\<close> does is
  a parameter: from the program, the address and the state, the state after the
  instruction and the next address, or a failure.
\<close>

type_synonym behaviour = "Program \<Rightarrow> 32 word \<Rightarrow> CPU \<Rightarrow> error + CPU \<times> 32 word"

definition executeOneInstruction :: "behaviour \<Rightarrow> Program \<Rightarrow> CPU \<Rightarrow> error + CPU" where
  "executeOneInstruction ex p s =
     (case eip s of
        Inl e \<Rightarrow> Inl e
      | Inr a \<Rightarrow>
     (case ex p a s of
        Inl e \<Rightarrow> Inl e
      | Inr r \<Rightarrow>
     (case getRegisterByName ''EIP'' of
        Inl e \<Rightarrow> Inl e
      | Inr v \<Rightarrow> Inr (setValue (fst r) v (snd r)))))"

definition step :: "behaviour \<Rightarrow> Program \<Rightarrow> CPU \<Rightarrow> error + CPU" where
  "step ex p s =
     (case isFinished p s of
        Inl e \<Rightarrow> Inl e
      | Inr fin \<Rightarrow>
          if fin then Inr (onExit_notify (pause s))
          else
            (case hasBreakpoint s of
               Inl e \<Rightarrow> Inl e
             | Inr bp \<Rightarrow>
                 if bp then
                   (if \<not> stoppedOnBreakpoint s
                    then Inr (pause (s\<lparr>stoppedOnBreakpoint := True\<rparr>))
                    else executeOneInstruction ex p (s\<lparr>stoppedOnBreakpoint := False\<rparr>))
                 else executeOneInstruction ex p s))"

definition deref :: "CPU \<Rightarrow> MemoryView \<Rightarrow> error + MemoryView" where
  "deref s v = load s (getValue s v) (view_size v)"

definition push :: "CPU \<Rightarrow> 32 word \<Rightarrow> error + CPU" where
  "push s x =
     (case getRegisterByName ''ESP'' of
        Inl e \<Rightarrow> Inl e
      | Inr esp \<Rightarrow>
     (let s1 = view_add s esp (- 4) in
      case deref s1 esp of
        Inl e \<Rightarrow> Inl e
      | Inr m \<Rightarrow> Inr (setValue s1 m x)))"

definition pop :: "CPU \<Rightarrow> error + 32 word \<times> CPU" where
  "pop s =
     (case getRegisterByName ''ESP'' of
        Inl e \<Rightarrow> Inl e
      | Inr esp \<Rightarrow>
     (case deref s esp of
        Inl e \<Rightarrow> Inl e
      | Inr m \<Rightarrow> Inr (getValue s m, view_add s esp 4)))"

text \<open>\<open>calculateEffectiveAddress\<close>: a parameter left out is \<open>None\<close>; the multiplier then
  is 1 and the constant 0. The sum is a JavaScript number, which does not wrap: the
  registers are read as unsigned integers and added as integers.\<close>

definition calculateEffectiveAddress ::
    "CPU \<Rightarrow> MemoryView \<Rightarrow> MemoryView option \<Rightarrow> int option \<Rightarrow> int option \<Rightarrow> error + int" where
  "calculateEffectiveAddress s baseReg indexReg multiplier constant =
     (case (case indexReg of None \<Rightarrow> getRegisterByName ''NULL'' | Some x \<Rightarrow> Inr x) of
        Inl e \<Rightarrow> Inl e
      | Inr x \<Rightarrow>
          Inr (uint (getValue s baseReg)
               + uint (getValue s x) * (case multiplier of None \<Rightarrow> 1 | Some m \<Rightarrow> m)
               + (case constant of None \<Rightarrow> 0 | Some c \<Rightarrow> c)))"

text \<open>The two ways the CPU itself uses a register it names:
  \<open>getRegisterByName(name).getValue()\<close> and \<open>getRegisterByName(name).setValue(x)\<close>.\<close>

definition registerValue :: "CPU \<Rightarrow> string \<Rightarrow> error + 32 word" where
  "registerValue s n =
     (case getRegisterByName n of Inl e \<Rightarrow> Inl e | Inr v \<Rightarrow> Inr (getValue s v))"

definition setRegisterValue :: "CPU \<Rightarrow> string \<Rightarrow> 32 word \<Rightarrow> error + CPU" where
  "setRegisterValue s n x =
     (case getRegisterByName n of Inl e \<Rightarrow> Inl e | Inr v \<Rightarrow> Inr (setValue s v x))"

section \<open>Auxiliary notions and example inputs\<close>

text \<open>The names of the global labels that a list of lines defines, in order.\<close>

fun global_names :: "label_node option list \<Rightarrow> string list" where
  "global_names [] = []"
| "global_names (None # ls) = global_names ls"
| "global_names (Some lb # ls) =
     (if label_local lb then global_names ls else label_value lb # global_names ls)"

text \<open>The invariant of a pass over lines that define the global names \<open>ns\<close>: the names
  are pairwise different and new, and the table only grows.\<close>

definition names_ok :: "LabelResolver \<Rightarrow> LabelResolver \<Rightarrow> string list \<Rightarrow> bool" where
  "names_ok r r' ns \<longleftrightarrow>
     distinct ns \<and> (\<forall>n\<in>set ns. \<not> hasLabel r n \<and> hasLabel r' n)
     \<and> (\<forall>q. hasLabel r q \<longrightarrow> hasLabel r' q)"

text \<open>
  An instance of the instruction classes for the examples of the specification
  (\<open>MOV EAX, 5\<close>, \<open>JMP end\<close>, \<open>INT 0\<close>): a move takes a register and a constant, a jump
  takes a label, an interrupt takes a constant. Of the paths from a class object it has
  the own properties of every function, \<open>name\<close>, \<open>length\<close> and \<open>prototype\<close>; no
  instruction name of the examples contains a dot, so none of them follows a path.
\<close>

definition example_classes :: instruction_classes where
  "example_classes =
     \<lparr>getValidParameters =
        (\<lambda>i. case i of Move \<Rightarrow> [[Reg, Constant]] | Jump \<Rightarrow> [[Label]] | Interrupt \<Rightarrow> [[Constant]]),
      toString = (\<lambda>i. case i of Move \<Rightarrow> ''MOV'' | Jump \<Rightarrow> ''JMP'' | Interrupt \<Rightarrow> ''INT''),
      hasClassPath = (\<lambda>i p. p = [''name''] \<or> p = [''length''] \<or> p = [''prototype''])\<rparr>"

text \<open>The program \<open>JMP end\<close>, \<open>end:\<close>, \<open>INT 0\<close> on the source lines 1, 2 and 3.\<close>

definition forward_reference_program :: parsed_program where
  "forward_reference_program =
     \<lparr>parsed_text =
        [\<lparr>start_line = 1,
          line_of = \<lparr>text_label = None,
                     text_instruction =
                       Some \<lparr>instr_type = ''Instruction'', instr_name = ''JMP'',
                             instr_operands = [LabelOperand ''end'' False]\<rparr>\<rparr>\<rparr>,
         \<lparr>start_line = 2,
          line_of = \<lparr>text_label = Some \<lparr>label_value = ''end'', label_local = False\<rparr>,
                     text_instruction = None\<rparr>\<rparr>,
         \<lparr>start_line = 3,
          line_of = \<lparr>text_label = None,
                     text_instruction =
                       Some \<lparr>instr_type = ''Instruction'', instr_name = ''INT'',
                             instr_operands = [ConstantOperand 0 False]\<rparr>\<rparr>\<rparr>],
      parsed_data = []\<rparr>"

text \<open>The program \<open>MOV EAX, 5\<close> on source line 1, as parsed and as assembled, and a
  behaviour for it: the instruction writes 5 to \<open>EAX\<close> and continues at the next
  address. The line map numbers lines from 0.\<close>

definition mov_program :: Program where
  "mov_program =
     \<lparr>instructions =
        [\<lparr>enc_instruction = Move,
          enc_parameters = [RegisterParameter 4 20, ConstantParameter 4 5 False]\<rparr>],
      memoryDefinitions = [],
      prog_lineMap = [(0, 0)]\<rparr>"

definition mov_source :: parsed_program where
  "mov_source =
     \<lparr>parsed_text =
        [\<lparr>start_line = 1,
          line_of = \<lparr>text_label = None,
                     text_instruction =
                       Some \<lparr>instr_type = ''Instruction'', instr_name = ''MOV'',
                             instr_operands = [RegOperand ''EAX'', ConstantOperand 5 False]\<rparr>\<rparr>\<rparr>],
      parsed_data = []\<rparr>"

definition mov_behaviour :: behaviour where
  "mov_behaviour p a s =
     (case setRegisterValue s ''EAX'' 5 of Inl e \<Rightarrow> Inl e | Inr s' \<Rightarrow> Inr (s', a + 1))"

definition empty_program :: Program where
  "empty_program = \<lparr>instructions = [], memoryDefinitions = [], prog_lineMap = []\<rparr>"

text \<open>The three families of overlapping register views: the 4-byte register, its low
  two bytes, and the high and the low byte of those.\<close>

definition register_families :: "(string \<times> string \<times> string \<times> string) list" where
  "register_families =
     [(''EAX'', ''AX'', ''AH'', ''AL''), (''EBX'', ''BX'', ''BH'', ''BL''),
      (''ECX'', ''CX'', ''CH'', ''CL'')]"

text \<open>A data line \<open>d: db 1\<close> followed by a text line that only defines the local
  label \<open>.l\<close>, with the state of the assembler after each pass.\<close>

definition local_after_data_program :: parsed_program where
  "local_after_data_program =
     \<lparr>parsed_text =
        [\<lparr>start_line = 2,
          line_of = \<lparr>text_label = Some \<lparr>label_value = ''l'', label_local = True\<rparr>,
                     text_instruction = None\<rparr>\<rparr>],
      parsed_data =
        [\<lparr>start_line = 1,
          line_of = \<lparr>data_label = Some \<lparr>label_value = ''d'', label_local = False\<rparr>,
                     data_size = Some 1,
                     data_constants = [NumberConstant 1]\<rparr>\<rparr>]\<rparr>"

definition after_data_pass :: AssemblyData where
  "after_data_pass =
     \<lparr>textAddress = 0, dataAddress = 1, lineMap = [],
      labelResolver =
        \<lparr>labels = [(''d'', \<lparr>lbl_name = ''d'', lbl_local = False, lbl_address = 0\<rparr>)],
         unresolvedParameters = []\<rparr>\<rparr>"

definition after_text_pass :: AssemblyData where
  "after_text_pass =
     \<lparr>textAddress = 0, dataAddress = 1, lineMap = [],
      labelResolver =
        \<lparr>labels = [(''d'', \<lparr>lbl_name = ''d'', lbl_local = False, lbl_address = 0\<rparr>),
                   (''d.l'', \<lparr>lbl_name = ''d.l'', lbl_local = True, lbl_address = 0\<rparr>)],
         unresolvedParameters = []\<rparr>\<rparr>"

text \<open>A data line and a text line that define the same global label \<open>x\<close>.\<close>

definition duplicate_program :: parsed_program where
  "duplicate_program =
     \<lparr>parsed_text =
        [\<lparr>start_line = 2,
          line_of = \<lparr>text_label = Some \<lparr>label_value = ''x'', label_local = False\<rparr>,
                     text_instruction = None\<rparr>\<rparr>],
      parsed_data =
        [\<lparr>start_line = 1,
          line_of = \<lparr>data_label = Some \<lparr>label_value = ''x'', label_local = False\<rparr>,
                     data_size = Some 1,
                     data_constants = [NumberConstant 1]\<rparr>\<rparr>]\<rparr>"

text \<open>Three text lines: \<open>MOV EAX, 5\<close> and two instructions that do not exist.\<close>

definition unknown_instruction_program :: parsed_program where
  "unknown_instruction_program =
     \<lparr>parsed_text =
        [\<lparr>start_line = 1,
          line_of = \<lparr>text_label = None,
                     text_instruction =
                       Some \<lparr>instr_type = ''Instruction'', instr_name = ''MOV'',
                             instr_operands = [RegOperand ''EAX'', ConstantOperand 5 False]\<rparr>\<rparr>\<rparr>,
         \<lparr>start_line = 2,
          line_of = \<lparr>text_label = None,
                     text_instruction =
                       Some \<lparr>instr_type = ''Instruction'', instr_name = ''FOO'',
                             instr_operands = []\<rparr>\<rparr>\<rparr>,
         \<lparr>start_line = 3,
          line_of = \<lparr>text_label = None,
                     text_instruction =
                       Some \<lparr>instr_type = ''Instruction'', instr_name = ''BAR'',
                             instr_operands = []\<rparr>\<rparr>\<rparr>],
      parsed_data = []\<rparr>"

text \<open>The state before \<open>reset\<close> of a CPU built on a memory of \<open>n\<close> zero bytes,
  and the CPUs that the constructor returns for 16 and for 4 bytes.\<close>

definition initial_cpu :: "nat \<Rightarrow> CPU" where
  "initial_cpu n =
     \<lparr>status = \<lparr>sw_carry = False, sw_zero = False, sw_overflow = False, sw_signum = False,
                sw_direction = False\<rparr>,
      registers = (\<lambda>b. MemoryBlock_new 4),
      memory = MemoryBlock_new n,
      running = False,
      breakpoints = None,
      stoppedOnBreakpoint = False,
      scheduleTimeout = None,
      clearedTimeouts = [],
      exitNotifications = 0\<rparr>"

definition cpu_16 :: CPU where
  "cpu_16 =
     setValue
       (setValue
          (setValue (initial_cpu 16) \<lparr>view_block = RegisterBank 1, view_size = 4, view_index = 0\<rparr> 0)
          \<lparr>view_block = RegisterBank 3, view_size = 4, view_index = 0\<rparr> 15)
       \<lparr>view_block = RegisterBank 2, view_size = 4, view_index = 0\<rparr> 15"

definition cpu_4 :: CPU where
  "cpu_4 =
     setValue
       (setValue
          (setValue (initial_cpu 4) \<lparr>view_block = RegisterBank 1, view_size = 4, view_index = 0\<rparr> 0)
          \<lparr>view_block = RegisterBank 3, view_size = 4, view_index = 0\<rparr> 3)
       \<lparr>view_block = RegisterBank 2, view_size = 4, view_index = 0\<rparr> 3"

section \<open>Properties of \<open>_.has\<close>\<close>

lemma lodash_has_key: "map_of obj s = Some v \<Longrightarrow> lodash_has obj below s"
  by (simp add: lodash_has_def)

lemma lodash_has_no_dot:
  "CHR ''.'' \<notin> set s \<Longrightarrow> lodash_has obj below s \<longleftrightarrow> map_of obj s \<noteq> None"
  by (simp add: lodash_has_def)

lemma map_of_append_Some: "map_of xs k = Some v \<Longrightarrow> map_of (xs @ ys) k = Some v"
  by (simp add: map_add_def)

lemma lodash_has_append_new: "lodash_has (obj @ [(q, x)]) below q"
  by (auto simp: lodash_has_def map_add_def split: option.splits)

lemma lodash_has_append_mono:
  assumes "lodash_has obj below s"
  shows "lodash_has (obj @ [(q, x)]) below s"
proof (cases "map_of obj s")
  case (Some v)
  from map_of_append_Some [OF this] show ?thesis
    by (rule lodash_has_key)
next
  case None
  with assms obtain k ks v where dot: "CHR ''.'' \<in> set s" and sp: "split_dots s = k # ks"
    and v: "map_of obj k = Some v" and b: "below v ks"
    by (auto simp: lodash_has_def split: if_splits list.splits option.splits)
  from map_of_append_Some [OF v] have "map_of (obj @ [(q, x)]) k = Some v" .
  with dot sp b show ?thesis
    by (simp add: lodash_has_def)
qed

section \<open>Properties of the storage model\<close>

lemma word_split_low:
  "ucast (ucast (v :: 32 word) :: 8 word) OR push_bit 8 (take_bit k (drop_bit 8 v))
     = take_bit (8 + k) v"
  apply (rule bit_word_eqI)
  apply (auto simp add: bit_simps)
  done

lemma take_bit_32_word: "take_bit 32 (x :: 32 word) = x"
  by (rule take_bit_word_eq_self) simp

lemma write_bytes_other:
  "k < i \<or> i + n \<le> k \<Longrightarrow> write_bytes f i n v k = f k"
  by (induction n arbitrary: f i v) auto

lemma read_bytes_cong:
  "(\<And>k. i \<le> k \<Longrightarrow> k < i + n \<Longrightarrow> f k = g k) \<Longrightarrow> read_bytes f i n = read_bytes g i n"
  by (induction n arbitrary: i) auto

lemma read_write_same:
  "read_bytes (write_bytes f i n v) i n = take_bit (8 * n) v"
proof (induction n arbitrary: f i v)
  case 0
  then show ?case by simp
next
  case (Suc n)
  let ?W = "write_bytes (f(i := ucast v)) (Suc i) n (drop_bit 8 v)"
  have low: "?W i = ucast v"
    by (simp add: write_bytes_other)
  have "read_bytes (write_bytes f i (Suc n) v) i (Suc n)
          = ucast (?W i) OR push_bit 8 (read_bytes ?W (Suc i) n)"
    by (simp del: fun_upd_apply)
  also have "\<dots> = ucast (ucast v :: 8 word) OR push_bit 8 (take_bit (8 * n) (drop_bit 8 v))"
    by (simp only: low Suc.IH)
  also have "\<dots> = take_bit (8 * Suc n) v"
    by (simp add: word_split_low)
  finally show ?case .
qed

lemma read_write_other:
  "j + m \<le> i \<or> i + n \<le> j \<Longrightarrow> read_bytes (write_bytes f i n v) j m = read_bytes f j m"
  by (rule read_bytes_cong) (auto simp: write_bytes_other)

lemma getValue_setValue_same:
  "getValue (setValue s w x) w = take_bit (8 * view_size w) x"
  by (cases "view_block w")
     (simp_all add: getValue_def setValue_def get_block_def put_block_def read_write_same)

lemma getValue_setValue_other_block:
  "view_block u \<noteq> view_block w \<Longrightarrow> getValue (setValue s w x) u = getValue s u"
  by (cases "view_block w"; cases "view_block u")
     (simp_all add: getValue_def setValue_def get_block_def put_block_def)

lemma get_block_setValue_other:
  "r \<noteq> view_block w \<Longrightarrow> get_block (setValue s w x) r = get_block s r"
  by (cases "view_block w"; cases r)
     (simp_all add: setValue_def get_block_def put_block_def)

lemma block_bytes_setValue:
  "block_bytes (get_block (setValue s w x) (view_block w)) =
     write_bytes (block_bytes (get_block s (view_block w))) (view_index w) (view_size w) x"
  by (cases "view_block w") (simp_all add: setValue_def get_block_def put_block_def)

lemma block_size_memory_setValue:
  "block_size (memory (setValue s w x)) = block_size (memory s)"
  by (cases "view_block w") (simp_all add: setValue_def put_block_def get_block_def)

lemma memory_setValue_register:
  "view_block w = RegisterBank b \<Longrightarrow> memory (setValue s w x) = memory s"
  by (simp add: setValue_def put_block_def)

lemma getValue_view_add:
  "view_size w = 4 \<Longrightarrow> getValue (view_add t w n) w = getValue t w + n"
  by (simp add: view_add_def getValue_setValue_same take_bit_32_word)

lemma regs:
  "getRegisterByName ''EIP'' = Inr \<lparr>view_block = RegisterBank 1, view_size = 4, view_index = 0\<rparr>"
  "getRegisterByName ''EBP'' = Inr \<lparr>view_block = RegisterBank 2, view_size = 4, view_index = 0\<rparr>"
  "getRegisterByName ''ESP'' = Inr \<lparr>view_block = RegisterBank 3, view_size = 4, view_index = 0\<rparr>"
  "getRegisterByName ''NULL'' = Inr \<lparr>view_block = RegisterBank 0, view_size = 4, view_index = 0\<rparr>"
  by (simp_all add: getRegisterByName_def registerMap_def REGISTER_INDEX_def registerView_def
      RegisterInfo_new_def)

lemma registerValue_simps:
  "registerValue s ''EIP''
     = Inr (getValue s \<lparr>view_block = RegisterBank 1, view_size = 4, view_index = 0\<rparr>)"
  "registerValue s ''EBP''
     = Inr (getValue s \<lparr>view_block = RegisterBank 2, view_size = 4, view_index = 0\<rparr>)"
  "registerValue s ''ESP''
     = Inr (getValue s \<lparr>view_block = RegisterBank 3, view_size = 4, view_index = 0\<rparr>)"
  "registerValue s ''NULL''
     = Inr (getValue s \<lparr>view_block = RegisterBank 0, view_size = 4, view_index = 0\<rparr>)"
  by (simp_all add: registerValue_def regs)

lemma regs_families:
  "getRegisterByName ''EAX'' = Inr \<lparr>view_block = RegisterBank 4, view_size = 4, view_index = 0\<rparr>"
  "getRegisterByName ''AX'' = Inr \<lparr>view_block = RegisterBank 4, view_size = 2, view_index = 0\<rparr>"
  "getRegisterByName ''AH'' = Inr \<lparr>view_block = RegisterBank 4, view_size = 1, view_index = 1\<rparr>"
  "getRegisterByName ''AL'' = Inr \<lparr>view_block = RegisterBank 4, view_size = 1, view_index = 0\<rparr>"
  "getRegisterByName ''EBX'' = Inr \<lparr>view_block = RegisterBank 5, view_size = 4, view_index = 0\<rparr>"
  "getRegisterByName ''BX'' = Inr \<lparr>view_block = RegisterBank 5, view_size = 2, view_index = 0\<rparr>"
  "getRegisterByName ''BH'' = Inr \<lparr>view_block = RegisterBank 5, view_size = 1, view_index = 1\<rparr>"
  "getRegisterByName ''BL'' = Inr \<lparr>view_block = RegisterBank 5, view_size = 1, view_index = 0\<rparr>"
  "getRegisterByName ''ECX'' = Inr \<lparr>view_block = RegisterBank 6, view_size = 4, view_index = 0\<rparr>"
  "getRegisterByName ''CX'' = Inr \<lparr>view_block = RegisterBank 6, view_size = 2, view_index = 0\<rparr>"
  "getRegisterByName ''CH'' = Inr \<lparr>view_block = RegisterBank 6, view_size = 1, view_index = 1\<rparr>"
  "getRegisterByName ''CL'' = Inr \<lparr>view_block = RegisterBank 6, view_size = 1, view_index = 0\<rparr>"
  by (simp_all add: getRegisterByName_def registerMap_def REGISTER_INDEX_def registerView_def
      RegisterInfo_new_def)

lemma getValue_setValue_same_block:
  "view_block u = view_block w \<Longrightarrow>
     getValue (setValue s w x) u
       = read_bytes (write_bytes (block_bytes (get_block s (view_block w))) (view_index w) (view_size w) x)
           (view_index u) (view_size u)"
  by (simp add: getValue_def block_bytes_setValue)

lemma ucast_ucast_byte: "ucast (ucast (x :: 32 word) :: 8 word) = (take_bit 8 x :: 32 word)"
  by (rule bit_word_eqI) (auto simp: bit_simps)

lemma read_bytes_1: "read_bytes f i (Suc 0) = ucast (f i)"
  by simp

lemma read_bytes_2: "read_bytes f i 2 = ucast (f i) OR push_bit 8 (ucast (f (Suc i)))"
  by (simp add: eval_nat_numeral)

lemma read_bytes_4:
  "read_bytes f i 4 =
     ucast (f i) OR push_bit 8 (ucast (f (Suc i)) OR push_bit 8 (ucast (f (Suc (Suc i)))
       OR push_bit 8 (ucast (f (Suc (Suc (Suc i)))))))"
  by (simp add: eval_nat_numeral)

lemma write_bytes_1: "write_bytes f i (Suc 0) v = f(i := ucast v)"
  by simp

lemma write_bytes_2: "write_bytes f i 2 v = (f(i := ucast v))(Suc i := ucast (drop_bit 8 v))"
  by (simp add: eval_nat_numeral)

lemma write_bytes_4:
  "write_bytes f i 4 v =
     (f(i := ucast v, Suc i := ucast (drop_bit 8 v), Suc (Suc i) := ucast (drop_bit 16 v),
        Suc (Suc (Suc i)) := ucast (drop_bit 24 v)))"
  by (simp add: eval_nat_numeral)

lemmas byte_expansions =
  read_bytes_1 read_bytes_2 read_bytes_4 write_bytes_1 write_bytes_2 write_bytes_4

lemma bank_views:
  fixes s :: CPU and b :: nat and x :: "32 word"
  defines "full \<equiv> \<lparr>view_block = RegisterBank b, view_size = 4, view_index = 0\<rparr>"
    and "wide \<equiv> \<lparr>view_block = RegisterBank b, view_size = 2, view_index = 0\<rparr>"
    and "hi \<equiv> \<lparr>view_block = RegisterBank b, view_size = 1, view_index = 1\<rparr>"
    and "lo \<equiv> \<lparr>view_block = RegisterBank b, view_size = 1, view_index = 0\<rparr>"
  shows "getValue (setValue s wide x) lo = take_bit 8 x"
    and "getValue (setValue s wide x) hi = take_bit 8 (drop_bit 8 x)"
    and "drop_bit 16 (getValue (setValue s wide x) full) = drop_bit 16 (getValue s full)"
    and "take_bit 16 (getValue (setValue s wide x) full) = take_bit 16 x"
    and "getValue (setValue s lo x) hi = getValue s hi"
    and "drop_bit 8 (getValue (setValue s lo x) full) = drop_bit 8 (getValue s full)"
    and "take_bit 8 (getValue (setValue s lo x) full) = take_bit 8 x"
    and "getValue (setValue s hi x) lo = getValue s lo"
    and "drop_bit 16 (getValue (setValue s hi x) full) = drop_bit 16 (getValue s full)"
    and "take_bit 8 (drop_bit 8 (getValue (setValue s hi x) full)) = take_bit 8 x"
    and "take_bit 8 (getValue (setValue s hi x) full) = take_bit 8 (getValue s full)"
    and "getValue (setValue s full x) wide = take_bit 16 x"
    and "getValue (setValue s full x) hi = take_bit 8 (drop_bit 8 x)"
    and "getValue (setValue s full x) lo = take_bit 8 x"
proof -
  let ?f = "block_bytes (get_block s (RegisterBank b))"
  have g: "getValue (setValue s w x) u
       = read_bytes (write_bytes ?f (view_index w) (view_size w) x) (view_index u) (view_size u)"
    if "view_block w = RegisterBank b" "view_block u = RegisterBank b" for w u
    using that by (simp add: getValue_setValue_same_block)
  have h: "getValue s u = read_bytes ?f (view_index u) (view_size u)"
    if "view_block u = RegisterBank b" for u
    using that by (simp add: getValue_def)
  show "getValue (setValue s wide x) lo = take_bit 8 x"
    unfolding wide_def lo_def by (simp add: g byte_expansions ucast_ucast_byte)
  show "getValue (setValue s wide x) hi = take_bit 8 (drop_bit 8 x)"
    unfolding wide_def hi_def by (simp add: g byte_expansions ucast_ucast_byte)
  show "drop_bit 16 (getValue (setValue s wide x) full) = drop_bit 16 (getValue s full)"
    unfolding wide_def full_def
    by (simp add: g h byte_expansions; rule bit_word_eqI; auto simp: bit_simps dest: bit_imp_le_length)
  show "take_bit 16 (getValue (setValue s wide x) full) = take_bit 16 x"
    unfolding wide_def full_def
    by (simp add: g h byte_expansions; rule bit_word_eqI; auto simp: bit_simps dest: bit_imp_le_length)
  show "getValue (setValue s lo x) hi = getValue s hi"
    unfolding lo_def hi_def by (simp add: g h byte_expansions)
  show "drop_bit 8 (getValue (setValue s lo x) full) = drop_bit 8 (getValue s full)"
    unfolding lo_def full_def
    by (simp add: g h byte_expansions; rule bit_word_eqI; auto simp: bit_simps dest: bit_imp_le_length)
  show "take_bit 8 (getValue (setValue s lo x) full) = take_bit 8 x"
    unfolding lo_def full_def
    by (simp add: g h byte_expansions; rule bit_word_eqI; auto simp: bit_simps dest: bit_imp_le_length)
  show "getValue (setValue s hi x) lo = getValue s lo"
    unfolding lo_def hi_def by (simp add: g h byte_expansions)
  show "drop_bit 16 (getValue (setValue s hi x) full) = drop_bit 16 (getValue s full)"
    unfolding hi_def full_def
    by (simp add: g h byte_expansions; rule bit_word_eqI; auto simp: bit_simps dest: bit_imp_le_length)
  show "take_bit 8 (drop_bit 8 (getValue (setValue s hi x) full)) = take_bit 8 x"
    unfolding hi_def full_def
    by (simp add: g h byte_expansions; rule bit_word_eqI; auto simp: bit_simps dest: bit_imp_le_length)
  show "take_bit 8 (getValue (setValue s hi x) full) = take_bit 8 (getValue s full)"
    unfolding hi_def full_def
    by (simp add: g h byte_expansions; rule bit_word_eqI; auto simp: bit_simps dest: bit_imp_le_length)
  show "getValue (setValue s full x) wide = take_bit 16 x"
    unfolding wide_def full_def
    by (simp add: g h byte_expansions; rule bit_word_eqI; auto simp: bit_simps dest: bit_imp_le_length)
  show "getValue (setValue s full x) hi = take_bit 8 (drop_bit 8 x)"
    unfolding hi_def full_def
    by (simp add: g h byte_expansions ucast_ucast_byte)
  show "getValue (setValue s full x) lo = take_bit 8 x"
    unfolding lo_def full_def
    by (simp add: g h byte_expansions ucast_ucast_byte)
qed

section \<open>Properties of the CPU\<close>

subsection \<open>Reset\<close>

lemma registers_setValue_other:
  "view_block w \<noteq> RegisterBank b \<Longrightarrow> registers (setValue s w x) b = registers s b"
  by (cases "view_block w") (simp_all add: setValue_def put_block_def)

lemma reset_result:
  "\<exists>s'. reset s = Inr s'
        \<and> registerValue s' ''EIP'' = Inr 0
        \<and> registerValue s' ''ESP'' = Inr (word_of_int (int (block_size (memory s)) - 1))
        \<and> registerValue s' ''EBP'' = Inr (word_of_int (int (block_size (memory s)) - 1))
        \<and> memory s' = memory s
        \<and> (\<forall>b. b \<noteq> 1 \<and> b \<noteq> 2 \<and> b \<noteq> 3 \<longrightarrow> registers s' b = registers s b)"
  by (simp add: reset_def regs registerValue_def Let_def getValue_setValue_same
      getValue_setValue_other_block memory_setValue_register take_bit_32_word
      registers_setValue_other)

lemma uint_size_minus_1:
  assumes "0 < n" and "n \<le> 2 ^ 32"
  shows "uint (word_of_int (int n - 1) :: 32 word) = int n - 1"
proof -
  from assms have "0 \<le> int n - 1" and "int n - 1 < 2 ^ 32"
    by (simp_all add: of_nat_le_iff [of n "2 ^ 32", simplified])
  then have "(int n - 1) mod 2 ^ 32 = int n - 1"
    by (rule mod_pos_pos_trivial)
  moreover have "uint (word_of_int k :: 32 word) = k mod 2 ^ 32" for k
    by (simp add: uint_word_of_int)
  ultimately show ?thesis by (simp only:)
qed

text \<open>
  Claim C6. After \<open>reset\<close>, and so in every CPU that the constructor returns, the
  instruction pointer \<open>EIP\<close> is 0 and both \<open>ESP\<close> and \<open>EBP\<close> hold the memory size
  minus one. The registers hold 32-bit values, so the value is the size minus one as a
  32-bit word; read as an unsigned integer it is the size minus one for every memory of
  1 to \<open>2\<^sup>3\<^sup>2\<close> bytes.
\<close>

theorem reset_sets_pointers:
  "(\<exists>s'. reset s = Inr s'
        \<and> registerValue s' ''EIP'' = Inr 0
        \<and> registerValue s' ''ESP'' = Inr (word_of_int (int (block_size (memory s)) - 1))
        \<and> registerValue s' ''EBP'' = Inr (word_of_int (int (block_size (memory s)) - 1)))
   \<and> (\<exists>s'. CPU_new m = Inr s'
        \<and> registerValue s' ''EIP'' = Inr 0
        \<and> registerValue s' ''ESP'' = Inr (word_of_int (int (block_size m) - 1))
        \<and> registerValue s' ''EBP'' = Inr (word_of_int (int (block_size m) - 1))
        \<and> (0 < block_size m \<and> block_size m \<le> 2 ^ 32 \<longrightarrow>
             map_sum id uint (registerValue s' ''EIP'') = Inr 0
           \<and> map_sum id uint (registerValue s' ''ESP'') = Inr (int (block_size m) - 1)
           \<and> map_sum id uint (registerValue s' ''EBP'') = Inr (int (block_size m) - 1)))"
proof
  from reset_result [of s]
  show "\<exists>s'. reset s = Inr s'
        \<and> registerValue s' ''EIP'' = Inr 0
        \<and> registerValue s' ''ESP'' = Inr (word_of_int (int (block_size (memory s)) - 1))
        \<and> registerValue s' ''EBP'' = Inr (word_of_int (int (block_size (memory s)) - 1))"
    by blast
next
  let ?init = "\<lparr>status = \<lparr>sw_carry = False, sw_zero = False, sw_overflow = False, sw_signum = False,
                  sw_direction = False\<rparr>,
        registers = (\<lambda>b. MemoryBlock_new 4),
        memory = m,
        running = False,
        breakpoints = None,
        stoppedOnBreakpoint = False,
        scheduleTimeout = None,
        clearedTimeouts = [],
        exitNotifications = 0\<rparr>"
  from reset_result [of ?init] obtain s' where
    "CPU_new m = Inr s'"
    "registerValue s' ''EIP'' = Inr 0"
    "registerValue s' ''ESP'' = Inr (word_of_int (int (block_size m) - 1))"
    "registerValue s' ''EBP'' = Inr (word_of_int (int (block_size m) - 1))"
    by (auto simp: CPU_new_def)
  then show "\<exists>s'. CPU_new m = Inr s'
        \<and> registerValue s' ''EIP'' = Inr 0
        \<and> registerValue s' ''ESP'' = Inr (word_of_int (int (block_size m) - 1))
        \<and> registerValue s' ''EBP'' = Inr (word_of_int (int (block_size m) - 1))
        \<and> (0 < block_size m \<and> block_size m \<le> 2 ^ 32 \<longrightarrow>
             map_sum id uint (registerValue s' ''EIP'') = Inr 0
           \<and> map_sum id uint (registerValue s' ''ESP'') = Inr (int (block_size m) - 1)
           \<and> map_sum id uint (registerValue s' ''EBP'') = Inr (int (block_size m) - 1))"
    using uint_size_minus_1 [of "block_size m"] by (simp del: of_nat_diff)
qed

theorem reset_sets_pointers_witness:
  "\<exists>s'. CPU_new (MemoryBlock_new 16) = Inr s'
        \<and> map_sum id uint (registerValue s' ''EIP'') = Inr 0
        \<and> map_sum id uint (registerValue s' ''ESP'') = Inr 15
        \<and> map_sum id uint (registerValue s' ''EBP'') = Inr 15"
  using reset_sets_pointers [of undefined "MemoryBlock_new 16"]
  by (auto simp: MemoryBlock_new_def)


subsection \<open>Construction\<close>

lemma mov_program_assembled:
  "assemble example_classes (Inr mov_source) = Inr mov_program"
  by (simp add: assemble_def mov_source_def mov_program_def assembleDataSegment_def
      assembleTextSegment_def AssemblyData_new_def assembleInstruction_def parseInstruction_def
      InstructionMapping_def loadParameters_def checkParameterCompatibility_def
      example_classes_def loadParameter_def parseRegisterParameter_def parseRegisterName_def
      lodash_has_def
      registerId_def REGISTER_INDEX_def RegisterInfo_new_def parseConstantParameter_def
      mapLine_def resolveAddresses_def)

lemma set_breakpoints_never_zero:
  "breakpoints (set_breakpoints p rows s) = Some bs \<Longrightarrow> Some 0 \<notin> set bs"
  by (auto simp: set_breakpoints_def truthy_def)

lemma setValue_frame:
  "status (setValue s w x) = status s"
  "running (setValue s w x) = running s"
  "breakpoints (setValue s w x) = breakpoints s"
  "stoppedOnBreakpoint (setValue s w x) = stoppedOnBreakpoint s"
  "scheduleTimeout (setValue s w x) = scheduleTimeout s"
  "clearedTimeouts (setValue s w x) = clearedTimeouts s"
  "exitNotifications (setValue s w x) = exitNotifications s"
  by (cases "view_block w"; simp add: setValue_def put_block_def)+

lemma reset_frame:
  assumes "reset s = Inr s'"
  shows "status s' = status s \<and> running s' = running s \<and> breakpoints s' = breakpoints s
       \<and> stoppedOnBreakpoint s' = stoppedOnBreakpoint s \<and> scheduleTimeout s' = scheduleTimeout s
       \<and> clearedTimeouts s' = clearedTimeouts s \<and> exitNotifications s' = exitNotifications s"
  using assms by (auto simp: reset_def regs Let_def setValue_frame)

lemma CPU_new_result:
  "\<exists>s'. CPU_new m = Inr s'
        \<and> registerValue s' ''EIP'' = Inr 0
        \<and> registerValue s' ''ESP'' = Inr (word_of_int (int (block_size m) - 1))
        \<and> registerValue s' ''EBP'' = Inr (word_of_int (int (block_size m) - 1))
        \<and> memory s' = m
        \<and> (\<forall>b. b \<noteq> 1 \<and> b \<noteq> 2 \<and> b \<noteq> 3 \<longrightarrow> registers s' b = MemoryBlock_new 4)
        \<and> running s' = False \<and> breakpoints s' = None \<and> stoppedOnBreakpoint s' = False
        \<and> scheduleTimeout s' = None \<and> clearedTimeouts s' = [] \<and> exitNotifications s' = 0"
proof -
  let ?init = "\<lparr>status = \<lparr>sw_carry = False, sw_zero = False, sw_overflow = False, sw_signum = False,
                  sw_direction = False\<rparr>,
        registers = (\<lambda>b. MemoryBlock_new 4),
        memory = m,
        running = False,
        breakpoints = None,
        stoppedOnBreakpoint = False,
        scheduleTimeout = None,
        clearedTimeouts = [],
        exitNotifications = 0\<rparr>"
  from reset_result [of ?init] obtain s' where r: "reset ?init = Inr s'"
    and v: "registerValue s' ''EIP'' = Inr 0"
      "registerValue s' ''ESP'' = Inr (word_of_int (int (block_size m) - 1))"
      "registerValue s' ''EBP'' = Inr (word_of_int (int (block_size m) - 1))"
      "memory s' = m"
      "\<forall>b. b \<noteq> 1 \<and> b \<noteq> 2 \<and> b \<noteq> 3 \<longrightarrow> registers s' b = MemoryBlock_new 4"
    by auto
  from reset_frame [OF r] r v show ?thesis
    by (simp add: CPU_new_def)
qed

subsection \<open>Breakpoints and stepping\<close>

lemma isFinished_frame:
  "registers s' = registers s \<Longrightarrow> isFinished p s' = isFinished p s"
  by (simp add: isFinished_def eip_def regs getValue_def get_block_def)

lemma step_at_address_0_never_pauses:
  assumes "eip s = Inr 0" and "isFinished p s = Inr False"
  shows "step ex p (set_breakpoints p rows s) = executeOneInstruction ex p (set_breakpoints p rows s)"
proof -
  let ?s = "set_breakpoints p rows s"
  have r: "registers ?s = registers s"
    by (simp add: set_breakpoints_def)
  from assms(1) have ip: "eip ?s = Inr 0"
    by (simp add: eip_def regs getValue_def get_block_def r)
  from assms(2) have fin: "isFinished p ?s = Inr False"
    by (simp only: isFinished_frame [OF r])
  have "\<exists>bs. breakpoints ?s = Some bs \<and> Some 0 \<notin> set bs"
    by (auto simp: set_breakpoints_def truthy_def)
  then have "hasBreakpoint ?s = Inr False"
    by (auto simp: hasBreakpoint_def ip)
  with fin show ?thesis
    by (simp add: step_def)
qed

text \<open>
  Claim C2: with a breakpoint set on the source line of the first instruction, the first
  \<open>step\<close> pauses without executing and the second executes. The code does not do
  this. The setter of \<open>breakpoints\<close> drops the address 0, so in a new CPU for the
  program \<open>MOV EAX, 5\<close> whose breakpoint list names the line of that instruction the
  set of breakpoints is empty, and the first \<open>step\<close> executes the instruction:
  \<open>EAX\<close> becomes 5 and \<open>EIP\<close> becomes 1. The lemma before shows that no list of
  breakpoints makes \<open>step\<close> pause at address 0.
\<close>

theorem breakpoint_at_address_0_is_dropped:
  "\<exists>s0 s1. CPU_new (MemoryBlock_new 16) = Inr s0
      \<and> breakpoints (set_breakpoints mov_program [0] s0) = Some []
      \<and> step mov_behaviour mov_program (set_breakpoints mov_program [0] s0) = Inr s1
      \<and> registerValue s1 ''EIP'' = Inr 1
      \<and> registerValue s1 ''EAX'' = Inr 5
      \<and> registerValue s0 ''EIP'' = Inr 0
      \<and> registerValue s0 ''EAX'' = Inr 0
      \<and> running s1 = running s0
      \<and> stoppedOnBreakpoint s1 = False"
proof -
  let ?eip = "\<lparr>view_block = RegisterBank 1, view_size = 4, view_index = 0\<rparr>"
  let ?eax = "\<lparr>view_block = RegisterBank 4, view_size = 4, view_index = 0\<rparr>"
  from CPU_new_result [of "MemoryBlock_new 16"] obtain s0 where
    new: "CPU_new (MemoryBlock_new 16) = Inr s0"
    and ip: "registerValue s0 ''EIP'' = Inr 0"
    and st: "stoppedOnBreakpoint s0 = False" "running s0 = False"
    and banks: "\<forall>b. b \<noteq> 1 \<and> b \<noteq> 2 \<and> b \<noteq> 3 \<longrightarrow> registers s0 b = MemoryBlock_new 4"
    by blast
  let ?s = "set_breakpoints mov_program [0] s0"
  let ?s1 = "setValue (setValue ?s ?eax 5) ?eip 1"
  have bp: "breakpoints ?s = Some []"
    by (simp add: set_breakpoints_def mov_program_def getAddressByLine_def truthy_def)
  have regs_same: "getValue ?s v = getValue s0 v" for v
    by (simp add: set_breakpoints_def getValue_def get_block_def split: block_ref.splits)
  from ip have ip': "eip ?s = Inr 0"
    by (simp add: eip_def regs registerValue_simps regs_same)
  have len: "length (instructions mov_program) = 1"
    by (simp add: mov_program_def)
  have fin: "isFinished mov_program ?s = Inr False"
    by (simp add: isFinished_def ip' len)
  have hb: "hasBreakpoint ?s = Inr False"
    by (simp add: hasBreakpoint_def ip' bp)
  have ex: "executeOneInstruction mov_behaviour mov_program ?s = Inr ?s1"
    by (simp add: executeOneInstruction_def ip' mov_behaviour_def setRegisterValue_def
        regs_families regs)
  have stp: "step mov_behaviour mov_program ?s = Inr ?s1"
    by (simp add: step_def fin hb ex)
  have e1: "registerValue ?s1 ''EIP'' = Inr 1"
    by (simp add: registerValue_simps getValue_setValue_same take_bit_32_word)
  have a1: "registerValue ?s1 ''EAX'' = Inr 5"
    by (simp add: registerValue_def regs_families getValue_setValue_other_block
        getValue_setValue_same take_bit_32_word)
  have a0: "registerValue s0 ''EAX'' = Inr 0"
    using banks
    by (simp add: registerValue_def regs_families getValue_def get_block_def
        MemoryBlock_new_def eval_nat_numeral)
  have fr: "running ?s1 = running s0" "stoppedOnBreakpoint ?s1 = False"
    using st by (simp_all add: setValue_frame set_breakpoints_def)
  from new bp stp e1 a1 ip a0 fr show ?thesis
    by blast
qed

lemma step_finished:
  assumes "isFinished p s = Inr True"
  shows "step ex p s =
           Inr (s\<lparr>running := False,
                  clearedTimeouts :=
                    (case scheduleTimeout s of None \<Rightarrow> clearedTimeouts s
                     | Some h \<Rightarrow> clearedTimeouts s @ [h]),
                  exitNotifications := Suc (exitNotifications s)\<rparr>)"
  using assms
  by (simp add: step_def onExit_notify_def pause_def clearScheduledRun_def split: option.splits)

text \<open>
  Claim C10. A \<open>step\<close> of a finished program changes no register, no byte of memory,
  no flag and no breakpoint: it sets \<open>running\<close> to false, cancels the pending timer if
  there is one, and notifies the exit observers. The program is still finished
  afterwards, so every further \<open>step\<close> notifies the observers again.
\<close>

theorem step_when_finished:
  assumes "isFinished p s = Inr True"
  shows "\<exists>s' s''. step ex p s = Inr s'
      \<and> registers s' = registers s \<and> memory s' = memory s \<and> status s' = status s
      \<and> breakpoints s' = breakpoints s \<and> stoppedOnBreakpoint s' = stoppedOnBreakpoint s
      \<and> scheduleTimeout s' = scheduleTimeout s
      \<and> running s' = False
      \<and> clearedTimeouts s' =
           (case scheduleTimeout s of None \<Rightarrow> clearedTimeouts s | Some h \<Rightarrow> clearedTimeouts s @ [h])
      \<and> exitNotifications s' = Suc (exitNotifications s)
      \<and> isFinished p s' = Inr True
      \<and> step ex p s' = Inr s''
      \<and> exitNotifications s'' = Suc (Suc (exitNotifications s))
      \<and> registers s'' = registers s \<and> memory s'' = memory s"
proof -
  define c where "c = (case scheduleTimeout s of None \<Rightarrow> clearedTimeouts s
                       | Some h \<Rightarrow> clearedTimeouts s @ [h])"
  define s' where "s' = s\<lparr>running := False, clearedTimeouts := c,
                           exitNotifications := Suc (exitNotifications s)\<rparr>"
  define c' where "c' = (case scheduleTimeout s' of None \<Rightarrow> clearedTimeouts s'
                       | Some h \<Rightarrow> clearedTimeouts s' @ [h])"
  define s'' where "s'' = s'\<lparr>running := False, clearedTimeouts := c',
                           exitNotifications := Suc (exitNotifications s')\<rparr>"
  have 1: "step ex p s = Inr s'"
    unfolding s'_def c_def by (rule step_finished [OF assms])
  have r: "registers s' = registers s"
    by (simp add: s'_def)
  have f: "isFinished p s' = Inr True"
    using assms by (simp only: isFinished_frame [OF r])
  have 2: "step ex p s' = Inr s''"
    unfolding s''_def c'_def by (rule step_finished [OF f])
  have fields: "memory s' = memory s" "status s' = status s" "breakpoints s' = breakpoints s"
    "stoppedOnBreakpoint s' = stoppedOnBreakpoint s" "scheduleTimeout s' = scheduleTimeout s"
    "running s' = False" "clearedTimeouts s' = c"
    "exitNotifications s' = Suc (exitNotifications s)"
    by (simp_all add: s'_def)
  have fields': "exitNotifications s'' = Suc (Suc (exitNotifications s))"
    "registers s'' = registers s" "memory s'' = memory s"
    by (simp_all add: s''_def s'_def)
  show ?thesis
    by (rule exI [of _ s'], rule exI [of _ s''])
       (simp only: 1 2 r f fields fields' c_def simp_thms)
qed

theorem step_when_finished_witness:
  "\<exists>s0 s1 s2. CPU_new (MemoryBlock_new 16) = Inr s0
      \<and> isFinished empty_program s0 = Inr True
      \<and> step mov_behaviour empty_program s0 = Inr s1
      \<and> registers s1 = registers s0 \<and> memory s1 = memory s0
      \<and> exitNotifications s1 = 1
      \<and> step mov_behaviour empty_program s1 = Inr s2
      \<and> exitNotifications s2 = 2"
proof -
  from CPU_new_result [of "MemoryBlock_new 16"] obtain s0 where
    new: "CPU_new (MemoryBlock_new 16) = Inr s0"
    and ip: "registerValue s0 ''EIP'' = Inr 0"
    and n: "exitNotifications s0 = 0"
    by blast
  from ip have fin: "isFinished empty_program s0 = Inr True"
    by (simp add: isFinished_def eip_def regs registerValue_simps empty_program_def)
  from step_when_finished [OF fin, of mov_behaviour] obtain s1 s2 where
    "step mov_behaviour empty_program s0 = Inr s1"
    "registers s1 = registers s0" "memory s1 = memory s0"
    "exitNotifications s1 = Suc (exitNotifications s0)"
    "step mov_behaviour empty_program s1 = Inr s2"
    "exitNotifications s2 = Suc (Suc (exitNotifications s0))"
    by blast
  with new fin n show ?thesis by (simp add: numeral_2_eq_2)
qed

subsection \<open>The stack\<close>

lemma pop_result:
  assumes sp: "registerValue t ''ESP'' = Inr tp"
    and room: "unat tp + 4 \<le> block_size (memory t)"
  shows "\<exists>t'. pop t = Inr (getValue t \<lparr>view_block = MainMemory, view_size = 4, view_index = unat tp\<rparr>, t')
           \<and> registerValue t' ''ESP'' = Inr (tp + 4)"
proof -
  let ?esp = "\<lparr>view_block = RegisterBank 3, view_size = 4, view_index = 0\<rparr>"
  let ?top = "\<lparr>view_block = MainMemory, view_size = 4, view_index = unat tp\<rparr>"
  from sp have v: "getValue t ?esp = tp"
    by (simp add: registerValue_simps)
  have d: "deref t ?esp = Inr ?top"
    using room by (simp add: deref_def load_def v)
  have q: "pop t = Inr (getValue t ?top, view_add t ?esp 4)"
    by (simp add: pop_def regs d)
  have "getValue (view_add t ?esp 4) ?esp = getValue t ?esp + 4"
    by (rule getValue_view_add) simp
  then have "registerValue (view_add t ?esp 4) ''ESP'' = Inr (tp + 4)"
    by (simp only: registerValue_simps v)
  with q show ?thesis by blast
qed

lemma push_result:
  assumes sp: "registerValue s ''ESP'' = Inr sp"
    and room: "unat (sp - 4) + 4 \<le> block_size (memory s)"
  shows "\<exists>s1. push s x = Inr s1
           \<and> registerValue s1 ''ESP'' = Inr (sp - 4)
           \<and> getValue s1 \<lparr>view_block = MainMemory, view_size = 4, view_index = unat (sp - 4)\<rparr> = x
           \<and> block_size (memory s1) = block_size (memory s)"
proof -
  let ?esp = "\<lparr>view_block = RegisterBank 3, view_size = 4, view_index = 0\<rparr>"
  let ?top = "\<lparr>view_block = MainMemory, view_size = 4, view_index = unat (sp - 4)\<rparr>"
  let ?s0 = "view_add s ?esp (- 4)"
  let ?s1 = "setValue ?s0 ?top x"
  from sp have v: "getValue s ?esp = sp"
    by (simp add: registerValue_simps)
  have v0: "getValue ?s0 ?esp = sp - 4"
    by (simp add: getValue_view_add v)
  have m0: "block_size (memory ?s0) = block_size (memory s)"
    by (simp add: view_add_def block_size_memory_setValue)
  have d0: "deref ?s0 ?esp = Inr ?top"
    using room by (simp add: deref_def load_def v0 m0)
  have p: "push s x = Inr ?s1"
    by (simp add: push_def regs Let_def d0)
  have v1: "registerValue ?s1 ''ESP'' = Inr (sp - 4)"
    by (simp add: registerValue_simps getValue_setValue_other_block v0)
  have t1: "getValue ?s1 ?top = x"
    by (simp add: getValue_setValue_same take_bit_32_word)
  have m1: "block_size (memory ?s1) = block_size (memory s)"
    by (simp add: block_size_memory_setValue m0)
  from p v1 t1 m1 show ?thesis by blast
qed

lemma push_fails_outside_memory:
  assumes "registerValue s ''ESP'' = Inr sp"
    and "\<not> unat (sp - 4) + 4 \<le> block_size (memory s)"
  shows "push s x = Inl (RangeError ''Invalid memory address'')"
proof -
  let ?esp = "\<lparr>view_block = RegisterBank 3, view_size = 4, view_index = 0\<rparr>"
  let ?s0 = "view_add s ?esp (- 4)"
  from assms(1) have v: "getValue s ?esp = sp"
    by (simp add: registerValue_simps)
  have v0: "getValue ?s0 ?esp = sp - 4"
    by (simp add: getValue_view_add v)
  have m0: "block_size (memory ?s0) = block_size (memory s)"
    by (simp add: view_add_def block_size_memory_setValue)
  have "deref ?s0 ?esp = Inl (RangeError ''Invalid memory address'')"
    using assms(2) by (simp add: deref_def load_def v0 m0)
  then show ?thesis
    by (simp add: push_def regs Let_def)
qed

lemma pop_fails_outside_memory:
  assumes "registerValue t ''ESP'' = Inr tp"
    and "\<not> unat tp + 4 \<le> block_size (memory t)"
  shows "pop t = Inl (RangeError ''Invalid memory address'')"
proof -
  let ?esp = "\<lparr>view_block = RegisterBank 3, view_size = 4, view_index = 0\<rparr>"
  from assms(1) have v: "getValue t ?esp = tp"
    by (simp add: registerValue_simps)
  have "deref t ?esp = Inl (RangeError ''Invalid memory address'')"
    using assms(2) by (simp add: deref_def load_def v)
  then show ?thesis
    by (simp add: pop_def regs)
qed

lemma cpu_16_constructed: "CPU_new (MemoryBlock_new 16) = Inr cpu_16"
  by (simp add: CPU_new_def reset_def regs Let_def cpu_16_def initial_cpu_def
      block_size_memory_setValue MemoryBlock_new_def)

lemma cpu_4_constructed: "CPU_new (MemoryBlock_new 4) = Inr cpu_4"
  by (simp add: CPU_new_def reset_def regs Let_def cpu_4_def initial_cpu_def
      block_size_memory_setValue MemoryBlock_new_def)

lemma cpu_16_stack: "registerValue cpu_16 ''ESP'' = Inr 15" "block_size (memory cpu_16) = 16"
  by (simp_all add: cpu_16_def registerValue_simps getValue_setValue_other_block
      getValue_setValue_same take_bit_32_word block_size_memory_setValue initial_cpu_def
      MemoryBlock_new_def)

lemma cpu_4_stack: "registerValue cpu_4 ''ESP'' = Inr 3" "block_size (memory cpu_4) = 4"
  by (simp_all add: cpu_4_def registerValue_simps getValue_setValue_other_block
      getValue_setValue_same take_bit_32_word block_size_memory_setValue initial_cpu_def
      MemoryBlock_new_def)

text \<open>
  Claim C5, as stated, fails: not every state has the four bytes that \<open>push\<close> or
  \<open>pop\<close> accesses inside main memory. \<open>reset\<close> leaves \<open>ESP\<close> at the last byte, so
  in a new CPU with 16 bytes of memory \<open>pop\<close> reads the bytes 15 to 18 and fails; in
  a new CPU with 4 bytes of memory \<open>push\<close> moves \<open>ESP\<close> from 3 below 0 and fails.
\<close>

theorem stack_access_outside_memory_fails:
  "CPU_new (MemoryBlock_new 16) = Inr cpu_16
   \<and> registerValue cpu_16 ''ESP'' = Inr 15
   \<and> pop cpu_16 = Inl (RangeError ''Invalid memory address'')
   \<and> CPU_new (MemoryBlock_new 4) = Inr cpu_4
   \<and> registerValue cpu_4 ''ESP'' = Inr 3
   \<and> push cpu_4 10 = Inl (RangeError ''Invalid memory address'')"
proof -
  have 1: "pop cpu_16 = Inl (RangeError ''Invalid memory address'')"
    by (rule pop_fails_outside_memory [OF cpu_16_stack(1)]) (simp add: cpu_16_stack(2))
  have 2: "push cpu_4 10 = Inl (RangeError ''Invalid memory address'')"
    by (rule push_fails_outside_memory [OF cpu_4_stack(1)])
       (simp add: cpu_4_stack(2) unsigned_minus_1_eq_mask mask_eq_exp_minus_1)
  from 1 2 show ?thesis
    by (simp add: cpu_16_constructed cpu_4_constructed cpu_16_stack cpu_4_stack)
qed

text \<open>
  Claim C5, amended. In every state whose four bytes below \<open>ESP\<close> lie inside main
  memory, and for every 32-bit value, \<open>push\<close> decrements \<open>ESP\<close> by 4 and then writes
  the value at the new stack-pointer address; in every state whose four bytes at \<open>ESP\<close>
  lie inside main memory \<open>pop\<close> reads the value at the stack-pointer address and
  then increments \<open>ESP\<close> by 4; \<open>push\<close> followed by \<open>pop\<close> returns the value
  pushed and leaves \<open>ESP\<close> where it was.
\<close>

theorem push_then_pop:
  assumes "registerValue s ''ESP'' = Inr sp"
    and "unat (sp - 4) + 4 \<le> block_size (memory s)"
  shows "(\<exists>s1 s2. push s x = Inr s1
           \<and> registerValue s1 ''ESP'' = Inr (sp - 4)
           \<and> getValue s1 \<lparr>view_block = MainMemory, view_size = 4, view_index = unat (sp - 4)\<rparr> = x
           \<and> pop s1 = Inr (x, s2)
           \<and> registerValue s2 ''ESP'' = Inr sp)
       \<and> (\<forall>t tp. registerValue t ''ESP'' = Inr tp \<and> unat tp + 4 \<le> block_size (memory t) \<longrightarrow>
             (\<exists>t'. pop t = Inr (getValue t \<lparr>view_block = MainMemory, view_size = 4,
                                           view_index = unat tp\<rparr>, t')
                  \<and> registerValue t' ''ESP'' = Inr (tp + 4)))"
proof
  from push_result [OF assms, of x] obtain s1 where
    p: "push s x = Inr s1" and v1: "registerValue s1 ''ESP'' = Inr (sp - 4)"
    and t1: "getValue s1 \<lparr>view_block = MainMemory, view_size = 4, view_index = unat (sp - 4)\<rparr> = x"
    and m1: "block_size (memory s1) = block_size (memory s)"
    by blast
  from assms(2) m1 have "unat (sp - 4) + 4 \<le> block_size (memory s1)"
    by simp
  from pop_result [OF v1 this] t1 obtain s2 where
    "pop s1 = Inr (x, s2)" and "registerValue s2 ''ESP'' = Inr sp"
    by auto
  with p v1 t1 show "\<exists>s1 s2. push s x = Inr s1
           \<and> registerValue s1 ''ESP'' = Inr (sp - 4)
           \<and> getValue s1 \<lparr>view_block = MainMemory, view_size = 4, view_index = unat (sp - 4)\<rparr> = x
           \<and> pop s1 = Inr (x, s2)
           \<and> registerValue s2 ''ESP'' = Inr sp"
    by blast
next
  show "\<forall>t tp. registerValue t ''ESP'' = Inr tp \<and> unat tp + 4 \<le> block_size (memory t) \<longrightarrow>
             (\<exists>t'. pop t = Inr (getValue t \<lparr>view_block = MainMemory, view_size = 4,
                                           view_index = unat tp\<rparr>, t')
                  \<and> registerValue t' ''ESP'' = Inr (tp + 4))"
    using pop_result by blast
qed

theorem push_then_pop_witness:
  "\<exists>s0 s1 s2. CPU_new (MemoryBlock_new 16) = Inr s0
      \<and> registerValue s0 ''ESP'' = Inr 15
      \<and> push s0 10 = Inr s1
      \<and> registerValue s1 ''ESP'' = Inr 11
      \<and> pop s1 = Inr (10, s2)
      \<and> registerValue s2 ''ESP'' = Inr 15"
proof -
  from CPU_new_result [of "MemoryBlock_new 16"] obtain s0 where
    new: "CPU_new (MemoryBlock_new 16) = Inr s0"
    and sp: "registerValue s0 ''ESP'' = Inr 15"
    and m: "memory s0 = MemoryBlock_new 16"
    by (auto simp: MemoryBlock_new_def)
  have room: "unat (15 - 4 :: 32 word) + 4 \<le> block_size (memory s0)"
    by (simp add: m MemoryBlock_new_def)
  have "\<exists>s1 s2. push s0 10 = Inr s1
           \<and> registerValue s1 ''ESP'' = Inr (15 - 4)
           \<and> getValue s1 \<lparr>view_block = MainMemory, view_size = 4, view_index = unat (15 - 4 :: 32 word)\<rparr> = 10
           \<and> pop s1 = Inr (10, s2)
           \<and> registerValue s2 ''ESP'' = Inr 15"
    using push_then_pop [OF sp room, of 10] by (rule conjunct1)
  then obtain s1 s2 where
    "push s0 10 = Inr s1" "registerValue s1 ''ESP'' = Inr (15 - 4)"
    "pop s1 = Inr (10, s2)" "registerValue s2 ''ESP'' = Inr 15"
    by blast
  moreover have "(15 - 4 :: 32 word) = 11" by simp
  ultimately show ?thesis using new sp by (simp only:) blast
qed

subsection \<open>Overlapping register views\<close>

lemma family_views:
  fixes s :: CPU and x :: "32 word"
  assumes e: "getRegisterByName e = Inr \<lparr>view_block = RegisterBank b, view_size = 4, view_index = 0\<rparr>"
    and w: "getRegisterByName w = Inr \<lparr>view_block = RegisterBank b, view_size = 2, view_index = 0\<rparr>"
    and h: "getRegisterByName h = Inr \<lparr>view_block = RegisterBank b, view_size = 1, view_index = 1\<rparr>"
    and l: "getRegisterByName l = Inr \<lparr>view_block = RegisterBank b, view_size = 1, view_index = 0\<rparr>"
  shows "(\<exists>s'. setRegisterValue s w x = Inr s'
            \<and> registerValue s' l = Inr (take_bit 8 x)
            \<and> registerValue s' h = Inr (take_bit 8 (drop_bit 8 x))
            \<and> map_sum id (drop_bit 16) (registerValue s' e) = map_sum id (drop_bit 16) (registerValue s e))
       \<and> (\<exists>s'. setRegisterValue s l x = Inr s'
            \<and> registerValue s' l = Inr (take_bit 8 x)
            \<and> registerValue s' h = registerValue s h
            \<and> map_sum id (drop_bit 8) (registerValue s' e) = map_sum id (drop_bit 8) (registerValue s e))
       \<and> (\<exists>s'. setRegisterValue s h x = Inr s'
            \<and> registerValue s' h = Inr (take_bit 8 x)
            \<and> registerValue s' l = registerValue s l
            \<and> map_sum id (drop_bit 16) (registerValue s' e) = map_sum id (drop_bit 16) (registerValue s e))"
  by (simp add: setRegisterValue_def registerValue_def e w h l bank_views getValue_setValue_same
      del: One_nat_def)

lemma families:
  "list_all (\<lambda>(e, w, h, l). \<exists>b.
       getRegisterByName e = Inr \<lparr>view_block = RegisterBank b, view_size = 4, view_index = 0\<rparr>
     \<and> getRegisterByName w = Inr \<lparr>view_block = RegisterBank b, view_size = 2, view_index = 0\<rparr>
     \<and> getRegisterByName h = Inr \<lparr>view_block = RegisterBank b, view_size = 1, view_index = 1\<rparr>
     \<and> getRegisterByName l = Inr \<lparr>view_block = RegisterBank b, view_size = 1, view_index = 0\<rparr>)
     register_families"
  by (simp add: register_families_def regs_families del: One_nat_def)

text \<open>
  Claim C9. A write through a view changes only the bytes of its own range: every other
  block, and every byte of its block outside the range, stays as it was. A read through
  a view depends on the bytes of its range only and returns what was last written to
  it. For each of the three register families, writing the 2-byte view and reading the
  1-byte views gives the low and the high byte, and writing a 1-byte view leaves the
  other 1-byte view and the upper bytes of the bank unchanged.
\<close>

theorem register_views:
  "(\<forall>r. r \<noteq> view_block v \<longrightarrow> get_block (setValue s v x) r = get_block s r)
   \<and> (\<forall>k. k < view_index v \<or> view_index v + view_size v \<le> k \<longrightarrow>
          block_bytes (get_block (setValue s v x) (view_block v)) k
            = block_bytes (get_block s (view_block v)) k)
   \<and> getValue (setValue s v x) v = take_bit (8 * view_size v) x
   \<and> (\<forall>t u. (\<forall>k. view_index u \<le> k \<and> k < view_index u + view_size u \<longrightarrow>
                  block_bytes (get_block t (view_block u)) k = block_bytes (get_block s (view_block u)) k)
            \<longrightarrow> getValue t u = getValue s u)
   \<and> list_all (\<lambda>(e, w, h, l).
         (\<exists>s'. setRegisterValue s w x = Inr s'
            \<and> registerValue s' l = Inr (take_bit 8 x)
            \<and> registerValue s' h = Inr (take_bit 8 (drop_bit 8 x))
            \<and> map_sum id (drop_bit 16) (registerValue s' e) = map_sum id (drop_bit 16) (registerValue s e))
       \<and> (\<exists>s'. setRegisterValue s l x = Inr s'
            \<and> registerValue s' l = Inr (take_bit 8 x)
            \<and> registerValue s' h = registerValue s h
            \<and> map_sum id (drop_bit 8) (registerValue s' e) = map_sum id (drop_bit 8) (registerValue s e))
       \<and> (\<exists>s'. setRegisterValue s h x = Inr s'
            \<and> registerValue s' h = Inr (take_bit 8 x)
            \<and> registerValue s' l = registerValue s l
            \<and> map_sum id (drop_bit 16) (registerValue s' e) = map_sum id (drop_bit 16) (registerValue s e)))
       register_families"
proof (intro conjI allI impI)
  fix r :: block_ref assume "r \<noteq> view_block v"
  then show "get_block (setValue s v x) r = get_block s r"
    by (rule get_block_setValue_other)
next
  fix k :: nat assume "k < view_index v \<or> view_index v + view_size v \<le> k"
  then show "block_bytes (get_block (setValue s v x) (view_block v)) k
            = block_bytes (get_block s (view_block v)) k"
    by (simp add: block_bytes_setValue write_bytes_other)
next
  show "getValue (setValue s v x) v = take_bit (8 * view_size v) x"
    by (rule getValue_setValue_same)
next
  fix t :: CPU and u :: MemoryView
  assume "\<forall>k. view_index u \<le> k \<and> k < view_index u + view_size u \<longrightarrow>
                  block_bytes (get_block t (view_block u)) k = block_bytes (get_block s (view_block u)) k"
  then show "getValue t u = getValue s u"
    unfolding getValue_def by (intro read_bytes_cong) blast
next
  have "list_all (\<lambda>f. (case f of (e, w, h, l) \<Rightarrow> \<exists>b.
       getRegisterByName e = Inr \<lparr>view_block = RegisterBank b, view_size = 4, view_index = 0\<rparr>
     \<and> getRegisterByName w = Inr \<lparr>view_block = RegisterBank b, view_size = 2, view_index = 0\<rparr>
     \<and> getRegisterByName h = Inr \<lparr>view_block = RegisterBank b, view_size = 1, view_index = 1\<rparr>
     \<and> getRegisterByName l = Inr \<lparr>view_block = RegisterBank b, view_size = 1, view_index = 0\<rparr>)
     \<longrightarrow> (case f of (e, w, h, l) \<Rightarrow>
         (\<exists>s'. setRegisterValue s w x = Inr s'
            \<and> registerValue s' l = Inr (take_bit 8 x)
            \<and> registerValue s' h = Inr (take_bit 8 (drop_bit 8 x))
            \<and> map_sum id (drop_bit 16) (registerValue s' e) = map_sum id (drop_bit 16) (registerValue s e))
       \<and> (\<exists>s'. setRegisterValue s l x = Inr s'
            \<and> registerValue s' l = Inr (take_bit 8 x)
            \<and> registerValue s' h = registerValue s h
            \<and> map_sum id (drop_bit 8) (registerValue s' e) = map_sum id (drop_bit 8) (registerValue s e))
       \<and> (\<exists>s'. setRegisterValue s h x = Inr s'
            \<and> registerValue s' h = Inr (take_bit 8 x)
            \<and> registerValue s' l = registerValue s l
            \<and> map_sum id (drop_bit 16) (registerValue s' e) = map_sum id (drop_bit 16) (registerValue s e))))
       register_families"
    unfolding list_all_iff using family_views by (auto simp del: One_nat_def)
  with families show "list_all (\<lambda>(e, w, h, l).
         (\<exists>s'. setRegisterValue s w x = Inr s'
            \<and> registerValue s' l = Inr (take_bit 8 x)
            \<and> registerValue s' h = Inr (take_bit 8 (drop_bit 8 x))
            \<and> map_sum id (drop_bit 16) (registerValue s' e) = map_sum id (drop_bit 16) (registerValue s e))
       \<and> (\<exists>s'. setRegisterValue s l x = Inr s'
            \<and> registerValue s' l = Inr (take_bit 8 x)
            \<and> registerValue s' h = registerValue s h
            \<and> map_sum id (drop_bit 8) (registerValue s' e) = map_sum id (drop_bit 8) (registerValue s e))
       \<and> (\<exists>s'. setRegisterValue s h x = Inr s'
            \<and> registerValue s' h = Inr (take_bit 8 x)
            \<and> registerValue s' l = registerValue s l
            \<and> map_sum id (drop_bit 16) (registerValue s' e) = map_sum id (drop_bit 16) (registerValue s e)))
       register_families"
    unfolding list_all_iff by blast
qed

theorem register_views_witness:
  "\<exists>s0 s1 s2. CPU_new (MemoryBlock_new 16) = Inr s0
      \<and> setRegisterValue s0 ''AX'' 4660 = Inr s1
      \<and> registerValue s1 ''AL'' = Inr 52
      \<and> registerValue s1 ''AH'' = Inr 18
      \<and> setRegisterValue s0 ''AL'' 511 = Inr s2
      \<and> registerValue s2 ''AL'' = Inr 255
      \<and> registerValue s2 ''AH'' = registerValue s0 ''AH''
      \<and> get_block s2 (RegisterBank 5) = get_block s0 (RegisterBank 5)
      \<and> block_bytes (get_block s2 (RegisterBank 4)) 1 = block_bytes (get_block s0 (RegisterBank 4)) 1"
proof -
  let ?al = "\<lparr>view_block = RegisterBank 4, view_size = 1, view_index = 0\<rparr>"
  from CPU_new_result [of "MemoryBlock_new 16"] obtain s0 where
    new: "CPU_new (MemoryBlock_new 16) = Inr s0"
    by blast
  note v = register_views [of ?al s0 511]
  note w = register_views [of ?al s0 4660]
  from w have "\<exists>s'. setRegisterValue s0 ''AX'' 4660 = Inr s'
            \<and> registerValue s' ''AL'' = Inr (take_bit 8 4660)
            \<and> registerValue s' ''AH'' = Inr (take_bit 8 (drop_bit 8 4660))
            \<and> map_sum id (drop_bit 16) (registerValue s' ''EAX'')
                = map_sum id (drop_bit 16) (registerValue s0 ''EAX'')"
    by (simp add: register_families_def)
  then have "\<exists>s1. setRegisterValue s0 ''AX'' 4660 = Inr s1
      \<and> registerValue s1 ''AL'' = Inr 52 \<and> registerValue s1 ''AH'' = Inr 18"
    by auto
  moreover from v have "\<exists>s'. setRegisterValue s0 ''AL'' 511 = Inr s'
            \<and> registerValue s' ''AL'' = Inr (take_bit 8 511)
            \<and> registerValue s' ''AH'' = registerValue s0 ''AH''
            \<and> map_sum id (drop_bit 8) (registerValue s' ''EAX'')
                = map_sum id (drop_bit 8) (registerValue s0 ''EAX'')"
    by (simp add: register_families_def)
  then have "\<exists>s2. setRegisterValue s0 ''AL'' 511 = Inr s2
      \<and> registerValue s2 ''AL'' = Inr 255 \<and> registerValue s2 ''AH'' = registerValue s0 ''AH''"
    by auto
  moreover have "setRegisterValue s0 ''AL'' 511 = Inr (setValue s0 ?al 511)"
    by (simp add: setRegisterValue_def regs_families del: One_nat_def)
  moreover from v have "get_block (setValue s0 ?al 511) (RegisterBank 5) = get_block s0 (RegisterBank 5)"
    by simp
  moreover from v have "block_bytes (get_block (setValue s0 ?al 511) (RegisterBank 4)) 1
       = block_bytes (get_block s0 (RegisterBank 4)) 1"
    by simp
  ultimately show ?thesis using new by auto
qed

section \<open>Properties of the assembler\<close>

subsection \<open>Names with a dot\<close>

text \<open>What the path lookup of \<open>_.has\<close> does to names with a dot: the local label
  \<open>.name\<close> under the global label \<open>d\<close> counts as defined already, and a register or
  instruction name that is a path passes the check and fails at the next access.\<close>

lemma split_dots_examples:
  "split_dots ''d.name'' = [''d'', ''name'']"
  "split_dots ''.a'' = ['''', ''a'']"
  "split_dots ''a..b'' = [''a'', '''', ''b'']"
  by simp_all

lemma local_label_named_like_a_property:
  "addLabel (labelResolver after_data_pass) 0 ''name'' True
     = Inl (AssemblyException ''Duplicate label found: d.name'' 0 NoData)"
  by (simp add: addLabel_def normalizeLabelName_def findPreviousGlobalLabel_def hasLabel_def
      lodash_has_def label_object_def after_data_pass_def)

lemma register_name_with_a_path:
  "parseRegisterName (Some ''EAX._id'') = Inr ''EAX._id''"
  "parseRegisterParameter 4 ''EAX._id'' = Inl (TypeError ''Cannot read property id of undefined'')"
  by (simp_all add: parseRegisterParameter_def parseRegisterName_def registerId_def lodash_has_def
      REGISTER_INDEX_def RegisterInfo_new_def register_object_def)

lemma instruction_name_with_a_path:
  "parseInstruction example_classes
     \<lparr>instr_type = ''Instruction'', instr_name = ''MOV.name'', instr_operands = []\<rparr>
     = Inl (TypeError ''undefined is not a constructor'')"
  by (simp add: parseInstruction_def lodash_has_def InstructionMapping_def example_classes_def)

subsection \<open>Label operands\<close>

lemma loadParameter_label:
  "getInnerParameter x = LabelOperand v d \<Longrightarrow>
     loadParameter x = Inl (TypeError ''Cannot read property labelResolver of undefined'')"
  by (simp add: loadParameter_def parseLabelParameter_def)

lemma map_raising_Inr:
  "map_raising f xs = Inr ys \<Longrightarrow> x \<in> set xs \<Longrightarrow> \<exists>y. f x = Inr y"
  by (induction xs arbitrary: ys) (auto split: sum.splits)

lemma parseInstruction_label:
  assumes "x \<in> set (instr_operands n)" and "getInnerParameter x = LabelOperand v d"
  shows "\<exists>e. parseInstruction ic n = Inl e"
proof (cases "parseInstruction ic n")
  case (Inl e)
  then show ?thesis by simp
next
  case (Inr i)
  then obtain ps where "map_raising loadParameter (instr_operands n) = Inr ps"
    by (auto simp: parseInstruction_def loadParameters_def
        split: option.splits sum.splits if_splits)
  with assms(1) obtain y where "loadParameter x = Inr y"
    using map_raising_Inr [of loadParameter "instr_operands n" ps x] by blast
  with assms(2) show ?thesis by (simp add: loadParameter_label)
qed

lemma assembleTextLoop_parsed:
  "assembleTextLoop ic ts ins d = Inr r \<Longrightarrow> t \<in> set ts \<Longrightarrow>
     text_instruction (line_of t) = Some n \<Longrightarrow> \<exists>i. parseInstruction ic n = Inr i"
proof (induction ts arbitrary: ins d)
  case Nil
  then show ?case by simp
next
  case (Cons u us)
  from Cons.prems(1) obtain r1 where
    r1: "assembleInstruction ic (line_of u) d = Inr r1"
    by (auto simp: Let_def split: sum.splits)
  show ?case
  proof (cases "t = u")
    case True
    with r1 Cons.prems(3) show ?thesis
      by (auto simp: assembleInstruction_def split: sum.splits option.splits)
  next
    case False
    with Cons.prems(2) have "t \<in> set us" by simp
    moreover from Cons.prems(1) r1 obtain ins1 d1 where "assembleTextLoop ic us ins1 d1 = Inr r"
      by (auto simp: Let_def split: option.splits)
    ultimately show ?thesis
      using Cons.IH Cons.prems(3) by blast
  qed
qed

lemma label_operand_never_assembles:
  assumes "assemble ic (Inr P) = Inr prog"
    and "t \<in> set (parsed_text P)"
    and "text_instruction (line_of t) = Some n"
    and "x \<in> set (instr_operands n)"
  shows "getInnerParameter x \<noteq> LabelOperand v d"
proof
  assume l: "getInnerParameter x = LabelOperand v d"
  from assms(1) obtain rd r where
    "assembleTextLoop ic (parsed_text P) [] (snd rd) = Inr r"
    by (auto simp: assemble_def assembleTextSegment_def split: sum.splits)
  from assembleTextLoop_parsed [OF this assms(2,3)] obtain i where "parseInstruction ic n = Inr i"
    by blast
  with parseInstruction_label [OF assms(4) l, of ic] show False
    by simp
qed

text \<open>
  Claim C1: a program with a forward label reference assembles, and the operand is
  resolved to the address of the label. The code does not do this. \<open>loadParameters\<close>
  calls every operand parser with two arguments, so \<open>parseLabelParameter\<close> receives
  no assembly data and raises a \<open>TypeError\<close>: the program \<open>JMP end\<close>, \<open>end:\<close>,
  \<open>INT 0\<close> does not assemble. The lemma before shows the same for every program with
  a label operand, whatever the instruction classes accept.
\<close>

theorem forward_reference_fails:
  "assemble example_classes (Inr forward_reference_program)
     = Inl (TypeError ''Cannot read property labelResolver of undefined'')"
  by (simp add: assemble_def forward_reference_program_def assembleDataSegment_def
      assembleTextSegment_def AssemblyData_new_def assembleInstruction_def parseInstruction_def
      InstructionMapping_def loadParameters_def checkParameterCompatibility_def
      example_classes_def loadParameter_def parseLabelParameter_def rethrow_def lodash_has_def)

subsection \<open>The label table\<close>

lemma addLabel_Inr:
  "addLabel r a l loc = Inr r' \<Longrightarrow>
     \<exists>q. normalizeLabelName r l loc a = Inr q \<and> \<not> hasLabel r q
       \<and> r' = r\<lparr>labels := labels r @ [(q, \<lparr>lbl_name = q, lbl_local = loc, lbl_address = a\<rparr>)]\<rparr>"
  by (auto simp: addLabel_def split: sum.splits if_splits)

lemma hasLabel_append:
  "hasLabel (r\<lparr>labels := labels r @ [(q, x)]\<rparr>) q"
  "hasLabel r n \<Longrightarrow> hasLabel (r\<lparr>labels := labels r @ [(q, x)]\<rparr>) n"
  by (simp_all add: hasLabel_def lodash_has_append_new lodash_has_append_mono)

lemma addLabel_hasLabel:
  assumes "addLabel r a l loc = Inr r'"
  shows "normalizeLabelName r l loc a = Inr n \<Longrightarrow> hasLabel r' n"
    and "hasLabel r n \<Longrightarrow> hasLabel r' n"
proof -
  from addLabel_Inr [OF assms] obtain q where
    q: "normalizeLabelName r l loc a = Inr q"
    and r': "r' = r\<lparr>labels := labels r @ [(q, \<lparr>lbl_name = q, lbl_local = loc, lbl_address = a\<rparr>)]\<rparr>"
    by blast
  show "normalizeLabelName r l loc a = Inr n \<Longrightarrow> hasLabel r' n"
    unfolding r' using q by (auto intro: hasLabel_append)
  show "hasLabel r n \<Longrightarrow> hasLabel r' n"
    unfolding r' by (rule hasLabel_append)
qed

lemma addLabel_duplicate:
  "normalizeLabelName r l loc a = Inr q \<Longrightarrow> hasLabel r q \<Longrightarrow>
     addLabel r a l loc = Inl (AssemblyException (''Duplicate label found: '' @ q) 0 NoData)"
  by (simp add: addLabel_def)

lemma assembleInstruction_labels:
  assumes "assembleInstruction ic l d = Inr r"
  shows "case text_label l of
           None \<Rightarrow> labelResolver (snd r) = labelResolver d
         | Some lb \<Rightarrow> addLabel (labelResolver d) (textAddress d) (label_value lb) (label_local lb)
                        = Inr (labelResolver (snd r))"
  using assms
  by (auto simp: assembleInstruction_def assembleLabel_def getAddress_def
      split: option.splits sum.splits)

lemma assembleMemoryDefinitions_labels:
  assumes "assembleMemoryDefinitions l d = Inr r"
  shows "case data_label l of
           None \<Rightarrow> labelResolver (snd r) = labelResolver d
         | Some lb \<Rightarrow> addLabel (labelResolver d) (dataAddress d) (label_value lb) (label_local lb)
                        = Inr (labelResolver (snd r))"
  using assms
  by (auto simp: assembleMemoryDefinitions_def assembleLabel_def getAddress_def Let_def
      split: option.splits sum.splits)

lemma normalizeLabelName_global: "normalizeLabelName r l False a = Inr l"
  by (simp add: normalizeLabelName_def)

lemma names_ok_step:
  assumes step: "case x of
           None \<Rightarrow> r1 = r
         | Some lb \<Rightarrow> addLabel r a (label_value lb) (label_local lb) = Inr r1"
    and rest: "names_ok r1 r' (global_names ls)"
  shows "names_ok r r' (global_names (x # ls))"
proof (cases x)
  case None
  with step rest show ?thesis by simp
next
  case (Some lb)
  with step have add: "addLabel r a (label_value lb) (label_local lb) = Inr r1" by simp
  note mono = addLabel_hasLabel(2) [OF add]
  show ?thesis
  proof (cases "label_local lb")
    case True
    with Some rest mono show ?thesis
      by (auto simp: names_ok_def)
  next
    case False
    from addLabel_Inr [OF add] False have new: "\<not> hasLabel r (label_value lb)"
      by (auto simp: normalizeLabelName_global)
    from addLabel_hasLabel(1) [OF add, of "label_value lb"] False
    have here: "hasLabel r1 (label_value lb)"
      by (simp add: normalizeLabelName_global)
    with Some rest mono new False show ?thesis
      by (auto simp: names_ok_def)
  qed
qed

lemma assembleTextLoop_names:
  "assembleTextLoop ic ts ins d = Inr r \<Longrightarrow>
     names_ok (labelResolver d) (labelResolver (snd r)) (global_names (map (\<lambda>t. text_label (line_of t)) ts))"
proof (induction ts arbitrary: ins d)
  case Nil
  then show ?case by (auto simp: names_ok_def)
next
  case (Cons t ts)
  from Cons.prems obtain r1 where
    r1: "assembleInstruction ic (line_of t) d = Inr r1"
    by (auto simp: Let_def split: sum.splits)
  define d1 where "d1 = (case fst r1 of None \<Rightarrow> snd r1
     | Some i \<Rightarrow> (snd r1)\<lparr>lineMap := mapLine (lineMap (snd r1)) (textAddress (snd r1)) (start_line t - 1),
                          textAddress := textAddress (snd r1) + 1\<rparr>)"
  define ins1 where "ins1 = (case fst r1 of None \<Rightarrow> ins | Some i \<Rightarrow> ins @ [i])"
  have lr: "labelResolver d1 = labelResolver (snd r1)"
    by (simp add: d1_def split: option.splits)
  from Cons.prems r1 have "assembleTextLoop ic ts ins1 d1 = Inr r"
    by (auto simp: Let_def d1_def ins1_def split: option.splits)
  from Cons.IH [OF this] have rest:
    "names_ok (labelResolver (snd r1)) (labelResolver (snd r)) (global_names (map (\<lambda>t. text_label (line_of t)) ts))"
    by (simp add: lr)
  from names_ok_step [OF assembleInstruction_labels [OF r1] rest]
  show ?case by simp
qed

lemma assembleDataLoop_names:
  "assembleDataLoop ts defs d = Inr r \<Longrightarrow>
     names_ok (labelResolver d) (labelResolver (snd r)) (global_names (map (\<lambda>t. data_label (line_of t)) ts))"
proof (induction ts arbitrary: defs d)
  case Nil
  then show ?case by (auto simp: names_ok_def)
next
  case (Cons t ts)
  from Cons.prems obtain r1 where
    r1: "assembleMemoryDefinitions (line_of t) d = Inr r1"
    by (auto simp: Let_def split: sum.splits)
  from Cons.prems r1 have "assembleDataLoop ts (defs @ fst r1) (snd r1) = Inr r"
    by (auto simp: Let_def)
  from Cons.IH [OF this] have rest:
    "names_ok (labelResolver (snd r1)) (labelResolver (snd r)) (global_names (map (\<lambda>t. data_label (line_of t)) ts))" .
  from names_ok_step [OF assembleMemoryDefinitions_labels [OF r1] rest]
  show ?case by simp
qed

lemma global_names_append: "global_names (xs @ ys) = global_names xs @ global_names ys"
  by (induction xs rule: global_names.induct) auto

lemma names_ok_trans:
  "names_ok r r1 xs \<Longrightarrow> names_ok r1 r2 ys \<Longrightarrow> names_ok r r2 (xs @ ys)"
  by (auto simp: names_ok_def)

lemma assemble_distinct_globals:
  assumes "assemble ic (Inr P) = Inr prog"
  shows "distinct (global_names (map (\<lambda>t. data_label (line_of t)) (parsed_data P)
                       @ map (\<lambda>t. text_label (line_of t)) (parsed_text P)))"
proof -
  from assms obtain rd rt where
    rd: "assembleDataLoop (parsed_data P) [] AssemblyData_new = Inr rd"
    and rt: "assembleTextLoop ic (parsed_text P) [] (snd rd) = Inr rt"
    by (auto simp: assemble_def assembleDataSegment_def assembleTextSegment_def split: sum.splits)
  from names_ok_trans [OF assembleDataLoop_names [OF rd] assembleTextLoop_names [OF rt]]
  show ?thesis
    by (simp add: names_ok_def global_names_append)
qed

lemma find_rev_None: "find P (rev xs) = None \<longleftrightarrow> (\<forall>x\<in>set xs. \<not> P x)"
  by (auto simp: find_None_iff)

lemma find_rev_Some:
  "find P (rev xs) = Some g \<longleftrightarrow>
     (\<exists>pre post. xs = pre @ g # post \<and> P g \<and> (\<forall>h\<in>set post. \<not> P h))"
proof (induction xs rule: rev_induct)
  case Nil
  then show ?case by simp
next
  case (snoc x xs)
  show ?case
  proof (cases "P x")
    case True
    have "(\<exists>pre post. xs @ [x] = pre @ g # post \<and> P g \<and> (\<forall>h\<in>set post. \<not> P h)) \<longleftrightarrow> x = g"
    proof
      assume "\<exists>pre post. xs @ [x] = pre @ g # post \<and> P g \<and> (\<forall>h\<in>set post. \<not> P h)"
      then obtain pre post where e: "xs @ [x] = pre @ g # post" and np: "\<forall>h\<in>set post. \<not> P h"
        by blast
      show "x = g"
      proof (cases post rule: rev_cases)
        case Nil
        with e show ?thesis by simp
      next
        case (snoc ys y)
        with e have "y = x" by simp
        with snoc np True show ?thesis by simp
      qed
    next
      assume "x = g"
      with True have "xs @ [x] = xs @ g # [] \<and> P g \<and> (\<forall>h\<in>set []. \<not> P h)" by simp
      then show "\<exists>pre post. xs @ [x] = pre @ g # post \<and> P g \<and> (\<forall>h\<in>set post. \<not> P h)"
        by blast
    qed
    with True show ?thesis by auto
  next
    case False
    have "(\<exists>pre post. xs @ [x] = pre @ g # post \<and> P g \<and> (\<forall>h\<in>set post. \<not> P h))
        \<longleftrightarrow> (\<exists>pre post. xs = pre @ g # post \<and> P g \<and> (\<forall>h\<in>set post. \<not> P h))"
    proof
      assume "\<exists>pre post. xs @ [x] = pre @ g # post \<and> P g \<and> (\<forall>h\<in>set post. \<not> P h)"
      then obtain pre post where e: "xs @ [x] = pre @ g # post" and pg: "P g"
        and np: "\<forall>h\<in>set post. \<not> P h"
        by blast
      show "\<exists>pre post. xs = pre @ g # post \<and> P g \<and> (\<forall>h\<in>set post. \<not> P h)"
      proof (cases post rule: rev_cases)
        case Nil
        with e have "x = g" by simp
        with pg False show ?thesis by simp
      next
        case (snoc ys y)
        with e have "xs = pre @ g # ys" by simp
        with pg np snoc show ?thesis by auto
      qed
    next
      assume "\<exists>pre post. xs = pre @ g # post \<and> P g \<and> (\<forall>h\<in>set post. \<not> P h)"
      then obtain pre post where "xs = pre @ g # post" and "P g" and "\<forall>h\<in>set post. \<not> P h"
        by blast
      with False have "xs @ [x] = pre @ g # (post @ [x]) \<and> P g \<and> (\<forall>h\<in>set (post @ [x]). \<not> P h)"
        by simp
      then show "\<exists>pre post. xs @ [x] = pre @ g # post \<and> P g \<and> (\<forall>h\<in>set post. \<not> P h)"
        by blast
    qed
    with False snoc.IH show ?thesis by simp
  qed
qed

lemma normalizeLabelName_local_Inr:
  "normalizeLabelName r l True a = Inr q \<longleftrightarrow>
     (\<exists>pre g post. map snd (labels r) = pre @ g # post
        \<and> \<not> lbl_local g \<and> lbl_address g \<le> a
        \<and> (\<forall>h\<in>set post. lbl_local h \<or> a < lbl_address h)
        \<and> q = lbl_name g @ ''.'' @ l)"
proof -
  let ?P = "\<lambda>l. \<not> lbl_local l \<and> lbl_address l \<le> a"
  have "normalizeLabelName r l True a = Inr q
      \<longleftrightarrow> (\<exists>g. find ?P (rev (map snd (labels r))) = Some g \<and> q = lbl_name g @ ''.'' @ l)"
    by (auto simp: normalizeLabelName_def findPreviousGlobalLabel_def split: option.splits)
  also have "\<dots> \<longleftrightarrow> (\<exists>g pre post. map snd (labels r) = pre @ g # post \<and> ?P g
        \<and> (\<forall>h\<in>set post. \<not> ?P h) \<and> q = lbl_name g @ ''.'' @ l)"
    unfolding find_rev_Some by blast
  also have "\<dots> \<longleftrightarrow> (\<exists>pre g post. map snd (labels r) = pre @ g # post
        \<and> \<not> lbl_local g \<and> lbl_address g \<le> a
        \<and> (\<forall>h\<in>set post. lbl_local h \<or> a < lbl_address h)
        \<and> q = lbl_name g @ ''.'' @ l)"
    by (auto simp: not_le)
  finally show ?thesis .
qed

lemma normalizeLabelName_local_Inl:
  "normalizeLabelName r l True a = Inl e \<longleftrightarrow>
     (\<forall>h\<in>set (labels r). lbl_local (snd h) \<or> a < lbl_address (snd h))
     \<and> e = AssemblyException (''Local label without a global label: '' @ l) 0 NoData"
proof -
  let ?P = "\<lambda>l. \<not> lbl_local l \<and> lbl_address l \<le> a"
  have "normalizeLabelName r l True a = Inl e
      \<longleftrightarrow> find ?P (rev (map snd (labels r))) = None
          \<and> e = AssemblyException (''Local label without a global label: '' @ l) 0 NoData"
    by (auto simp: normalizeLabelName_def findPreviousGlobalLabel_def split: option.splits)
  also have "find ?P (rev (map snd (labels r))) = None
      \<longleftrightarrow> (\<forall>h\<in>set (labels r). lbl_local (snd h) \<or> a < lbl_address (snd h))"
    unfolding find_rev_None by (auto simp: not_le)
  finally show ?thesis .
qed

subsection \<open>Failing lines\<close>

lemma assembleTextLoop_append:
  "assembleTextLoop ic (pre @ rest) ins d =
     (case assembleTextLoop ic pre ins d of
        Inl e \<Rightarrow> Inl e
      | Inr r \<Rightarrow> assembleTextLoop ic rest (fst r) (snd r))"
  by (induction pre arbitrary: ins d) (auto simp: Let_def split: sum.splits option.splits)

lemma assembleDataLoop_append:
  "assembleDataLoop (pre @ rest) defs d =
     (case assembleDataLoop pre defs d of
        Inl e \<Rightarrow> Inl e
      | Inr r \<Rightarrow> assembleDataLoop rest (fst r) (snd r))"
  by (induction pre arbitrary: defs d) (auto simp: Let_def split: sum.splits)

lemma rethrow_line: "rethrow (n - 1) x (AssemblyException m k y) = AssemblyException m n x"
  by (simp add: rethrow_def)

lemma text_line_failure:
  assumes "assembleTextLoop ic pre ins d = Inr r"
    and "assembleInstruction ic (line_of t) (snd r) = Inl e"
  shows "assembleTextLoop ic (pre @ t # ts) ins d =
           Inl (case e of
                  AssemblyException m k x \<Rightarrow> AssemblyException m (start_line t) (TextLine (line_of t))
                | TypeError m \<Rightarrow> TypeError m
                | RangeError m \<Rightarrow> RangeError m)"
  using assms by (simp add: assembleTextLoop_append rethrow_def split: error.splits)

lemma data_line_failure:
  assumes "assembleDataLoop pre defs d = Inr r"
    and "assembleMemoryDefinitions (line_of t) (snd r) = Inl e"
  shows "assembleDataLoop (pre @ t # ts) defs d =
           Inl (case e of
                  AssemblyException m k x \<Rightarrow> AssemblyException m (start_line t) (DataLine (line_of t))
                | TypeError m \<Rightarrow> TypeError m
                | RangeError m \<Rightarrow> RangeError m)"
  using assms by (simp add: assembleDataLoop_append rethrow_def split: error.splits)

lemma assembleInstruction_duplicate:
  assumes "text_label tx = Some lb"
    and "normalizeLabelName (labelResolver d) (label_value lb) (label_local lb) (textAddress d) = Inr q"
    and "hasLabel (labelResolver d) q"
  shows "assembleInstruction ic tx d = Inl (AssemblyException (''Duplicate label found: '' @ q) 0 NoData)"
  using assms
  by (simp add: assembleInstruction_def assembleLabel_def getAddress_def addLabel_duplicate)

lemma assembleMemoryDefinitions_duplicate:
  assumes "data_label dx = Some lb"
    and "normalizeLabelName (labelResolver d) (label_value lb) (label_local lb) (dataAddress d) = Inr q"
    and "hasLabel (labelResolver d) q"
  shows "assembleMemoryDefinitions dx d = Inl (AssemblyException (''Duplicate label found: '' @ q) 0 NoData)"
  using assms
  by (simp add: assembleMemoryDefinitions_def assembleLabel_def getAddress_def addLabel_duplicate)

lemma assembleInstruction_orphan:
  assumes "text_label tx = Some lb" and "label_local lb"
    and "\<forall>h\<in>set (labels (labelResolver d)). lbl_local (snd h) \<or> textAddress d < lbl_address (snd h)"
  shows "assembleInstruction ic tx d =
           Inl (AssemblyException (''Local label without a global label: '' @ label_value lb) 0 NoData)"
proof -
  from assms(3) have "normalizeLabelName (labelResolver d) (label_value lb) True (textAddress d)
      = Inl (AssemblyException (''Local label without a global label: '' @ label_value lb) 0 NoData)"
    by (simp only: normalizeLabelName_local_Inl simp_thms)
  with assms(1,2) show ?thesis
    by (simp add: assembleInstruction_def assembleLabel_def getAddress_def addLabel_def)
qed

lemma assembleMemoryDefinitions_orphan:
  assumes "data_label dx = Some lb" and "label_local lb"
    and "\<forall>h\<in>set (labels (labelResolver d)). lbl_local (snd h) \<or> dataAddress d < lbl_address (snd h)"
  shows "assembleMemoryDefinitions dx d =
           Inl (AssemblyException (''Local label without a global label: '' @ label_value lb) 0 NoData)"
proof -
  from assms(3) have "normalizeLabelName (labelResolver d) (label_value lb) True (dataAddress d)
      = Inl (AssemblyException (''Local label without a global label: '' @ label_value lb) 0 NoData)"
    by (simp only: normalizeLabelName_local_Inl simp_thms)
  with assms(1,2) show ?thesis
    by (simp add: assembleMemoryDefinitions_def assembleLabel_def getAddress_def addLabel_def)
qed

subsection \<open>Memory operands\<close>

lemma parseMemoryParameter_Inr:
  assumes "parseMemoryParameter sz b i m c = Inr p"
  shows "\<exists>n r. b = Some n \<and> map_of REGISTER_INDEX n = Some r
           \<and> (\<exists>xi. p = MemoryParameter sz (reg_id r) xi
                        (case m of None \<Rightarrow> 0 | Some v \<Rightarrow> v) (case c of None \<Rightarrow> 0 | Some v \<Rightarrow> v)
                  \<and> (i = None \<longrightarrow> xi = 0))"
  using assms
  by (auto simp: parseMemoryParameter_def parseRegisterName_def registerId_def
      split: option.splits sum.splits if_splits)

lemma parseMemoryParameter_known:
  "map_of REGISTER_INDEX n = Some r \<Longrightarrow>
     parseMemoryParameter sz (Some n) None None None = Inr (MemoryParameter sz (reg_id r) 0 0 0)"
  by (simp add: parseMemoryParameter_def parseRegisterName_def registerId_def lodash_has_key)

lemma null_register:
  "registerId ''NULL'' = Inr 0" "getRegisterByIndex 0 = getRegisterByName ''NULL''"
  by (simp_all add: registerId_def getRegisterByIndex_def REGISTER_INDEX_def RegisterInfo_new_def)

lemma null_register_new:
  "\<exists>s. CPU_new mem = Inr s \<and> registerValue s ''NULL'' = Inr 0"
proof -
  from CPU_new_result [of mem] obtain s where
    new: "CPU_new mem = Inr s"
    and banks: "\<forall>b. b \<noteq> 1 \<and> b \<noteq> 2 \<and> b \<noteq> 3 \<longrightarrow> registers s b = MemoryBlock_new 4"
    by blast
  from banks have "registerValue s ''NULL'' = Inr 0"
    by (simp add: registerValue_simps getValue_def get_block_def MemoryBlock_new_def
        eval_nat_numeral)
  with new show ?thesis by blast
qed

text \<open>
  Claim C4. A memory operand needs a base register: without one, or with a name outside
  the register table, encoding fails. An absent index register is encoded as register
  id 0, the id of \<open>NULL\<close>, which reads 0 in a new CPU; an absent multiplier is encoded
  as 0; an absent displacement is encoded as 0.
\<close>

theorem memory_operand_encoding:
  "parseMemoryParameter sz None i m c = Inl (TypeError ''Cannot read property name of null'')
   \<and> (parseMemoryParameter sz b i m c = Inr p \<longrightarrow>
        (\<exists>n r. b = Some n \<and> map_of REGISTER_INDEX n = Some r
            \<and> (\<exists>xi mu di. p = MemoryParameter sz (reg_id r) xi mu di)))
   \<and> (parseMemoryParameter sz b None m c = Inr p \<longrightarrow> (\<exists>bi mu di. p = MemoryParameter sz bi 0 mu di))
   \<and> (parseMemoryParameter sz b i None c = Inr p \<longrightarrow> (\<exists>bi xi di. p = MemoryParameter sz bi xi 0 di))
   \<and> (parseMemoryParameter sz b i m None = Inr p \<longrightarrow> (\<exists>bi xi mu. p = MemoryParameter sz bi xi mu 0))
   \<and> (map_of REGISTER_INDEX n = Some r \<longrightarrow>
        parseMemoryParameter sz (Some n) None None None = Inr (MemoryParameter sz (reg_id r) 0 0 0))
   \<and> registerId ''NULL'' = Inr 0
   \<and> getRegisterByIndex 0 = getRegisterByName ''NULL''
   \<and> (\<exists>s. CPU_new mem = Inr s \<and> registerValue s ''NULL'' = Inr 0)
   \<and> loadParameter (MemoryOperand b i m c) = parseMemoryParameter 4 b i m c"
proof (intro conjI impI)
  show "parseMemoryParameter sz None i m c = Inl (TypeError ''Cannot read property name of null'')"
    by (simp add: parseMemoryParameter_def parseRegisterName_def)
next
  assume "parseMemoryParameter sz b i m c = Inr p"
  from parseMemoryParameter_Inr [OF this]
  show "\<exists>n r. b = Some n \<and> map_of REGISTER_INDEX n = Some r
            \<and> (\<exists>xi mu di. p = MemoryParameter sz (reg_id r) xi mu di)"
    by blast
next
  assume "parseMemoryParameter sz b None m c = Inr p"
  from parseMemoryParameter_Inr [OF this]
  show "\<exists>bi mu di. p = MemoryParameter sz bi 0 mu di"
    by blast
next
  assume "parseMemoryParameter sz b i None c = Inr p"
  from parseMemoryParameter_Inr [OF this]
  show "\<exists>bi xi di. p = MemoryParameter sz bi xi 0 di"
    by auto
next
  assume "parseMemoryParameter sz b i m None = Inr p"
  from parseMemoryParameter_Inr [OF this]
  show "\<exists>bi xi mu. p = MemoryParameter sz bi xi mu 0"
    by auto
next
  assume "map_of REGISTER_INDEX n = Some r"
  then show "parseMemoryParameter sz (Some n) None None None = Inr (MemoryParameter sz (reg_id r) 0 0 0)"
    by (rule parseMemoryParameter_known)
next
  show "registerId ''NULL'' = Inr 0" by (rule null_register)
next
  show "getRegisterByIndex 0 = getRegisterByName ''NULL''" by (rule null_register)
next
  show "\<exists>s. CPU_new mem = Inr s \<and> registerValue s ''NULL'' = Inr 0" by (rule null_register_new)
next
  show "loadParameter (MemoryOperand b i m c) = parseMemoryParameter 4 b i m c"
    by (simp add: loadParameter_def)
qed

theorem memory_operand_encoding_witness:
  "parseMemoryParameter 4 (Some ''EBX'') None None None = Inr (MemoryParameter 4 24 0 0 0)
   \<and> loadParameter (Cast 2 (MemoryOperand (Some ''EBX'') None None None))
        = Inr (MemoryParameter 2 24 0 0 0)"
proof -
  have r: "map_of REGISTER_INDEX ''EBX'' = Some (RegisterInfo_new 24 5 4 0)"
    by (simp add: REGISTER_INDEX_def)
  from memory_operand_encoding [of 4 _ _ _ _ _ "''EBX''" "RegisterInfo_new 24 5 4 0"] r
  have 1: "parseMemoryParameter 4 (Some ''EBX'') None None None = Inr (MemoryParameter 4 24 0 0 0)"
    by (simp add: RegisterInfo_new_def)
  from memory_operand_encoding [of 2 _ _ _ _ _ "''EBX''" "RegisterInfo_new 24 5 4 0"] r
  have "parseMemoryParameter 2 (Some ''EBX'') None None None = Inr (MemoryParameter 2 24 0 0 0)"
    by (simp add: RegisterInfo_new_def)
  then have 2: "loadParameter (Cast 2 (MemoryOperand (Some ''EBX'') None None None))
        = Inr (MemoryParameter 2 24 0 0 0)"
    by (simp add: loadParameter_def)
  from 1 2 show ?thesis by simp
qed

subsection \<open>Local labels\<close>

text \<open>
  Claim C3, as stated, fails: a local label at the start of the text segment, which has
  no global label of its own, is accepted when the data segment has a global label at
  an address not above the text cursor. The data line \<open>d: db 1\<close> followed by the text
  line \<open>.l:\<close> assembles, and the label table then holds \<open>d.l\<close>.
\<close>

theorem local_label_after_data_label:
  "assembleDataSegment (parsed_data local_after_data_program) AssemblyData_new
     = Inr ([\<lparr>def_address = 0, def_size = 1, def_value = 1\<rparr>], after_data_pass)
   \<and> assembleTextSegment example_classes (parsed_text local_after_data_program) after_data_pass
     = Inr ([], after_text_pass)
   \<and> assemble example_classes (Inr local_after_data_program)
     = Inr \<lparr>instructions = [],
            memoryDefinitions = [\<lparr>def_address = 0, def_size = 1, def_value = 1\<rparr>],
            prog_lineMap = []\<rparr>"
proof -
  have 1: "assembleDataSegment (parsed_data local_after_data_program) AssemblyData_new
     = Inr ([\<lparr>def_address = 0, def_size = 1, def_value = 1\<rparr>], after_data_pass)"
    by (simp add: local_after_data_program_def assembleDataSegment_def AssemblyData_new_def
        assembleMemoryDefinitions_def assembleLabel_def addLabel_def normalizeLabelName_def
        hasLabel_def lodash_has_def getAddress_def after_data_pass_def)
  have 2: "assembleTextSegment example_classes (parsed_text local_after_data_program) after_data_pass
     = Inr ([], after_text_pass)"
    by (simp add: local_after_data_program_def assembleTextSegment_def after_data_pass_def
        assembleInstruction_def assembleLabel_def addLabel_def normalizeLabelName_def
        findPreviousGlobalLabel_def hasLabel_def lodash_has_def label_object_def getAddress_def
        after_text_pass_def)
  have 3: "resolveAddresses (labelResolver after_text_pass) = Inr []"
    by (simp add: resolveAddresses_def after_text_pass_def)
  have 4: "lineMap after_text_pass = []"
    by (simp add: after_text_pass_def)
  from 1 2 3 4 show ?thesis
    by (simp add: assemble_def)
qed

text \<open>
  Claim C3, amended. The label table is shared by both segments and a label does not
  record its segment. A local label is qualified by the most recently defined global
  label, of either segment, whose address is not above the current cursor; its
  definition fails with the error "Local label without a global label" exactly when the
  table holds no such global label, and the pass then stops with that error, the line
  number and the parsed line. In particular a local label before any global label of
  the program fails.
\<close>

theorem local_label_qualification:
  "(normalizeLabelName r l True a = Inr q \<longleftrightarrow>
      (\<exists>pre g post. map snd (labels r) = pre @ g # post
         \<and> \<not> lbl_local g \<and> lbl_address g \<le> a
         \<and> (\<forall>h\<in>set post. lbl_local h \<or> a < lbl_address h)
         \<and> q = lbl_name g @ ''.'' @ l))
   \<and> (normalizeLabelName r l True a = Inl e \<longleftrightarrow>
        (\<forall>h\<in>set (labels r). lbl_local (snd h) \<or> a < lbl_address (snd h))
        \<and> e = AssemblyException (''Local label without a global label: '' @ l) 0 NoData)
   \<and> (addLabel r a l True = Inr r' \<longrightarrow>
        (\<exists>q'. normalizeLabelName r l True a = Inr q'
           \<and> labels r' = labels r @ [(q', \<lparr>lbl_name = q', lbl_local = True, lbl_address = a\<rparr>)]))
   \<and> (text_label tx = Some lb \<and> label_local lb
        \<and> (\<forall>h\<in>set (labels (labelResolver d)). lbl_local (snd h) \<or> textAddress d < lbl_address (snd h))
       \<longrightarrow> assembleTextLoop ic (\<lparr>start_line = n, line_of = tx\<rparr> # ts) ins d
             = Inl (AssemblyException (''Local label without a global label: '' @ label_value lb)
                      n (TextLine tx)))
   \<and> (data_label dx = Some lb' \<and> label_local lb'
        \<and> (\<forall>h\<in>set (labels (labelResolver d')). lbl_local (snd h) \<or> dataAddress d' < lbl_address (snd h))
       \<longrightarrow> assembleDataLoop (\<lparr>start_line = n', line_of = dx\<rparr> # ds) defs d'
             = Inl (AssemblyException (''Local label without a global label: '' @ label_value lb')
                      n' (DataLine dx)))"
proof (intro conjI impI)
  show "normalizeLabelName r l True a = Inr q \<longleftrightarrow>
      (\<exists>pre g post. map snd (labels r) = pre @ g # post
         \<and> \<not> lbl_local g \<and> lbl_address g \<le> a
         \<and> (\<forall>h\<in>set post. lbl_local h \<or> a < lbl_address h)
         \<and> q = lbl_name g @ ''.'' @ l)"
    by (rule normalizeLabelName_local_Inr)
next
  show "normalizeLabelName r l True a = Inl e \<longleftrightarrow>
        (\<forall>h\<in>set (labels r). lbl_local (snd h) \<or> a < lbl_address (snd h))
        \<and> e = AssemblyException (''Local label without a global label: '' @ l) 0 NoData"
    by (rule normalizeLabelName_local_Inl)
next
  assume "addLabel r a l True = Inr r'"
  from addLabel_Inr [OF this]
  show "\<exists>q'. normalizeLabelName r l True a = Inr q'
           \<and> labels r' = labels r @ [(q', \<lparr>lbl_name = q', lbl_local = True, lbl_address = a\<rparr>)]"
    by auto
next
  assume h: "text_label tx = Some lb \<and> label_local lb
        \<and> (\<forall>h\<in>set (labels (labelResolver d)). lbl_local (snd h) \<or> textAddress d < lbl_address (snd h))"
  then have "assembleInstruction ic tx d =
           Inl (AssemblyException (''Local label without a global label: '' @ label_value lb) 0 NoData)"
    by (intro assembleInstruction_orphan) simp_all
  then show "assembleTextLoop ic (\<lparr>start_line = n, line_of = tx\<rparr> # ts) ins d
             = Inl (AssemblyException (''Local label without a global label: '' @ label_value lb)
                      n (TextLine tx))"
    by (simp add: rethrow_def)
next
  assume h: "data_label dx = Some lb' \<and> label_local lb'
        \<and> (\<forall>h\<in>set (labels (labelResolver d')). lbl_local (snd h) \<or> dataAddress d' < lbl_address (snd h))"
  then have "assembleMemoryDefinitions dx d' =
           Inl (AssemblyException (''Local label without a global label: '' @ label_value lb') 0 NoData)"
    by (intro assembleMemoryDefinitions_orphan) simp_all
  then show "assembleDataLoop (\<lparr>start_line = n', line_of = dx\<rparr> # ds) defs d'
             = Inl (AssemblyException (''Local label without a global label: '' @ label_value lb')
                      n' (DataLine dx))"
    by (simp add: rethrow_def)
qed

theorem local_label_qualification_witness:
  "normalizeLabelName (labelResolver after_data_pass) ''l'' True 0 = Inr ''d.l''
   \<and> assembleDataLoop
        [\<lparr>start_line = 1,
          line_of = \<lparr>data_label = Some \<lparr>label_value = ''l'', label_local = True\<rparr>,
                     data_size = None, data_constants = []\<rparr>\<rparr>] [] AssemblyData_new
       = Inl (AssemblyException ''Local label without a global label: l'' 1
               (DataLine \<lparr>data_label = Some \<lparr>label_value = ''l'', label_local = True\<rparr>,
                          data_size = None, data_constants = []\<rparr>))"
proof -
  let ?g = "\<lparr>lbl_name = ''d'', lbl_local = False, lbl_address = 0\<rparr>"
  let ?dx = "\<lparr>data_label = Some \<lparr>label_value = ''l'', label_local = True\<rparr>,
                     data_size = None, data_constants = []\<rparr>"
  note t = local_label_qualification [where r = "labelResolver after_data_pass" and l = "''l''"
      and a = 0 and q = "''d.l''" and dx = ?dx
      and lb' = "\<lparr>label_value = ''l'', label_local = True\<rparr>"
      and d' = AssemblyData_new and n' = 1 and ds = "[]" and defs = "[]"]
  have "map snd (labels (labelResolver after_data_pass)) = [] @ ?g # []
         \<and> \<not> lbl_local ?g \<and> lbl_address ?g \<le> 0
         \<and> (\<forall>h\<in>set []. lbl_local h \<or> 0 < lbl_address h)
         \<and> ''d.l'' = lbl_name ?g @ ''.'' @ ''l''"
    by (simp add: after_data_pass_def)
  then have "\<exists>pre g post. map snd (labels (labelResolver after_data_pass)) = pre @ g # post
         \<and> \<not> lbl_local g \<and> lbl_address g \<le> 0
         \<and> (\<forall>h\<in>set post. lbl_local h \<or> 0 < lbl_address h)
         \<and> ''d.l'' = lbl_name g @ ''.'' @ ''l''"
    by blast
  with t have 1: "normalizeLabelName (labelResolver after_data_pass) ''l'' True 0 = Inr ''d.l''"
    by blast
  from t have 2: "assembleDataLoop [\<lparr>start_line = 1, line_of = ?dx\<rparr>] [] AssemblyData_new
       = Inl (AssemblyException ''Local label without a global label: l'' 1 (DataLine ?dx))"
    by (simp add: AssemblyData_new_def)
  from 1 2 show ?thesis by simp
qed

subsection \<open>Duplicate labels\<close>

lemma names_ok_hasLabel: "names_ok r r' ns \<Longrightarrow> g \<in> set ns \<Longrightarrow> hasLabel r' g"
  by (simp add: names_ok_def)

lemma duplicate_in_text:
  assumes rd: "assembleDataSegment D AssemblyData_new = Inr rd"
    and rt: "assembleTextLoop ic pre [] (snd rd) = Inr rt"
    and g: "g \<in> set (global_names (map (\<lambda>t. data_label (line_of t)) D
                                   @ map (\<lambda>t. text_label (line_of t)) pre))"
    and lb: "text_label tx = Some lb" "\<not> label_local lb" "label_value lb = g"
  shows "assemble ic (Inr \<lparr>parsed_text = pre @ \<lparr>start_line = k, line_of = tx\<rparr> # ts, parsed_data = D\<rparr>)
           = Inl (AssemblyException (''Duplicate label found: '' @ g) k (TextLine tx))"
proof -
  from rd have rd': "assembleDataLoop D [] AssemblyData_new = Inr rd"
    by (simp add: assembleDataSegment_def)
  from names_ok_trans [OF assembleDataLoop_names [OF rd'] assembleTextLoop_names [OF rt]] g
  have has: "hasLabel (labelResolver (snd rt)) g"
    by (auto simp: global_names_append intro: names_ok_hasLabel)
  from lb have "normalizeLabelName (labelResolver (snd rt)) (label_value lb) (label_local lb)
                  (textAddress (snd rt)) = Inr g"
    by (simp add: normalizeLabelName_global)
  from assembleInstruction_duplicate [OF lb(1) this has]
  have "assembleInstruction ic (line_of \<lparr>start_line = k, line_of = tx\<rparr>) (snd rt)
          = Inl (AssemblyException (''Duplicate label found: '' @ g) 0 NoData)"
    by simp
  from text_line_failure [OF rt this, of ts]
  have "assembleTextLoop ic (pre @ \<lparr>start_line = k, line_of = tx\<rparr> # ts) [] (snd rd)
          = Inl (AssemblyException (''Duplicate label found: '' @ g) k (TextLine tx))"
    by simp
  with rd show ?thesis
    by (simp add: assemble_def assembleTextSegment_def)
qed

lemma duplicate_in_data:
  assumes rd: "assembleDataLoop pre [] AssemblyData_new = Inr rd"
    and g: "g \<in> set (global_names (map (\<lambda>t. data_label (line_of t)) pre))"
    and lb: "data_label dx = Some lb" "\<not> label_local lb" "label_value lb = g"
  shows "assemble ic (Inr \<lparr>parsed_text = T, parsed_data = pre @ \<lparr>start_line = k, line_of = dx\<rparr> # ds\<rparr>)
           = Inl (AssemblyException (''Duplicate label found: '' @ g) k (DataLine dx))"
proof -
  from assembleDataLoop_names [OF rd] g
  have has: "hasLabel (labelResolver (snd rd)) g"
    by (auto intro: names_ok_hasLabel)
  from lb have "normalizeLabelName (labelResolver (snd rd)) (label_value lb) (label_local lb)
                  (dataAddress (snd rd)) = Inr g"
    by (simp add: normalizeLabelName_global)
  from assembleMemoryDefinitions_duplicate [OF lb(1) this has]
  have "assembleMemoryDefinitions (line_of \<lparr>start_line = k, line_of = dx\<rparr>) (snd rd)
          = Inl (AssemblyException (''Duplicate label found: '' @ g) 0 NoData)"
    by simp
  from data_line_failure [OF rd this, of ds]
  have "assembleDataLoop (pre @ \<lparr>start_line = k, line_of = dx\<rparr> # ds) [] AssemblyData_new
          = Inl (AssemblyException (''Duplicate label found: '' @ g) k (DataLine dx))"
    by simp
  then show ?thesis
    by (simp add: assemble_def assembleDataSegment_def)
qed

lemma duplicate_text_line:
  assumes "text_label tx = Some lb"
    and "normalizeLabelName (labelResolver d) (label_value lb) (label_local lb) (textAddress d) = Inr q"
    and "hasLabel (labelResolver d) q"
  shows "assembleTextLoop ic (\<lparr>start_line = n, line_of = tx\<rparr> # ts) ins d
           = Inl (AssemblyException (''Duplicate label found: '' @ q) n (TextLine tx))"
  using assembleInstruction_duplicate [OF assms, of ic] by (simp add: rethrow_def)

lemma duplicate_data_line:
  assumes "data_label dx = Some lb"
    and "normalizeLabelName (labelResolver d) (label_value lb) (label_local lb) (dataAddress d) = Inr q"
    and "hasLabel (labelResolver d) q"
  shows "assembleDataLoop (\<lparr>start_line = n, line_of = dx\<rparr> # ds) defs d
           = Inl (AssemblyException (''Duplicate label found: '' @ q) n (DataLine dx))"
  using assembleMemoryDefinitions_duplicate [OF assms] by (simp add: rethrow_def)

text \<open>
  Claim C7. Defining a label whose qualified name is already in the table fails with the
  error "Duplicate label found", in the resolver and in both passes, where the error
  carries the line. The table is shared by the passes and only grows, so for a global
  name defined twice, both times in the data segment, both times in the text segment or
  once in each, assembly stops at the second definition with that error when the lines
  before it assemble, and no program with such a name assembles.
\<close>

theorem duplicate_label_fails:
  "(normalizeLabelName r l loc a = Inr q \<and> hasLabel r q \<longrightarrow>
      addLabel r a l loc = Inl (AssemblyException (''Duplicate label found: '' @ q) 0 NoData))
   \<and> (text_label tx = Some lb
        \<and> normalizeLabelName (labelResolver d) (label_value lb) (label_local lb) (textAddress d) = Inr q1
        \<and> hasLabel (labelResolver d) q1 \<longrightarrow>
       assembleTextLoop ic (\<lparr>start_line = n, line_of = tx\<rparr> # ts) ins d
         = Inl (AssemblyException (''Duplicate label found: '' @ q1) n (TextLine tx)))
   \<and> (data_label dx = Some lb2
        \<and> normalizeLabelName (labelResolver d2) (label_value lb2) (label_local lb2) (dataAddress d2) = Inr q2
        \<and> hasLabel (labelResolver d2) q2 \<longrightarrow>
       assembleDataLoop (\<lparr>start_line = n2, line_of = dx\<rparr> # ds) defs d2
         = Inl (AssemblyException (''Duplicate label found: '' @ q2) n2 (DataLine dx)))
   \<and> (assembleDataSegment D AssemblyData_new = Inr rd
        \<and> assembleTextLoop ic pre [] (snd rd) = Inr rt
        \<and> g \<in> set (global_names (map (\<lambda>t. data_label (line_of t)) D
                                   @ map (\<lambda>t. text_label (line_of t)) pre))
        \<and> text_label tx3 = Some lb3 \<and> \<not> label_local lb3 \<and> label_value lb3 = g \<longrightarrow>
       assemble ic (Inr \<lparr>parsed_text = pre @ \<lparr>start_line = k, line_of = tx3\<rparr> # ts3, parsed_data = D\<rparr>)
         = Inl (AssemblyException (''Duplicate label found: '' @ g) k (TextLine tx3)))
   \<and> (assembleDataLoop pre4 [] AssemblyData_new = Inr rd4
        \<and> g4 \<in> set (global_names (map (\<lambda>t. data_label (line_of t)) pre4))
        \<and> data_label dx4 = Some lb4 \<and> \<not> label_local lb4 \<and> label_value lb4 = g4 \<longrightarrow>
       assemble ic (Inr \<lparr>parsed_text = T4, parsed_data = pre4 @ \<lparr>start_line = k4, line_of = dx4\<rparr> # ds4\<rparr>)
         = Inl (AssemblyException (''Duplicate label found: '' @ g4) k4 (DataLine dx4)))
   \<and> (\<not> distinct (global_names (map (\<lambda>t. data_label (line_of t)) (parsed_data P)
                                  @ map (\<lambda>t. text_label (line_of t)) (parsed_text P))) \<longrightarrow>
       (\<exists>e. assemble ic (Inr P) = Inl e))"
proof (intro conjI impI)
  assume "normalizeLabelName r l loc a = Inr q \<and> hasLabel r q"
  then show "addLabel r a l loc = Inl (AssemblyException (''Duplicate label found: '' @ q) 0 NoData)"
    by (simp add: addLabel_duplicate)
next
  assume "text_label tx = Some lb
        \<and> normalizeLabelName (labelResolver d) (label_value lb) (label_local lb) (textAddress d) = Inr q1
        \<and> hasLabel (labelResolver d) q1"
  then show "assembleTextLoop ic (\<lparr>start_line = n, line_of = tx\<rparr> # ts) ins d
         = Inl (AssemblyException (''Duplicate label found: '' @ q1) n (TextLine tx))"
    using duplicate_text_line [of tx lb d q1 ic n ts ins] by blast
next
  assume "data_label dx = Some lb2
        \<and> normalizeLabelName (labelResolver d2) (label_value lb2) (label_local lb2) (dataAddress d2) = Inr q2
        \<and> hasLabel (labelResolver d2) q2"
  then show "assembleDataLoop (\<lparr>start_line = n2, line_of = dx\<rparr> # ds) defs d2
         = Inl (AssemblyException (''Duplicate label found: '' @ q2) n2 (DataLine dx))"
    using duplicate_data_line [of dx lb2 d2 q2 n2 ds defs] by blast
next
  assume "assembleDataSegment D AssemblyData_new = Inr rd
        \<and> assembleTextLoop ic pre [] (snd rd) = Inr rt
        \<and> g \<in> set (global_names (map (\<lambda>t. data_label (line_of t)) D
                                   @ map (\<lambda>t. text_label (line_of t)) pre))
        \<and> text_label tx3 = Some lb3 \<and> \<not> label_local lb3 \<and> label_value lb3 = g"
  then show "assemble ic (Inr \<lparr>parsed_text = pre @ \<lparr>start_line = k, line_of = tx3\<rparr> # ts3, parsed_data = D\<rparr>)
         = Inl (AssemblyException (''Duplicate label found: '' @ g) k (TextLine tx3))"
    using duplicate_in_text [of D rd ic pre rt g tx3 lb3 k ts3] by blast
next
  assume "assembleDataLoop pre4 [] AssemblyData_new = Inr rd4
        \<and> g4 \<in> set (global_names (map (\<lambda>t. data_label (line_of t)) pre4))
        \<and> data_label dx4 = Some lb4 \<and> \<not> label_local lb4 \<and> label_value lb4 = g4"
  then show "assemble ic (Inr \<lparr>parsed_text = T4, parsed_data = pre4 @ \<lparr>start_line = k4, line_of = dx4\<rparr> # ds4\<rparr>)
         = Inl (AssemblyException (''Duplicate label found: '' @ g4) k4 (DataLine dx4))"
    using duplicate_in_data [of pre4 rd4 g4 dx4 lb4 ic T4 k4 ds4] by blast
next
  assume nd: "\<not> distinct (global_names (map (\<lambda>t. data_label (line_of t)) (parsed_data P)
                                  @ map (\<lambda>t. text_label (line_of t)) (parsed_text P)))"
  show "\<exists>e. assemble ic (Inr P) = Inl e"
  proof (cases "assemble ic (Inr P)")
    case (Inl e)
    then show ?thesis by blast
  next
    case (Inr prog)
    from assemble_distinct_globals [OF this] nd show ?thesis by simp
  qed
qed

theorem duplicate_label_fails_witness:
  "assemble example_classes (Inr duplicate_program)
     = Inl (AssemblyException ''Duplicate label found: x'' 2
             (TextLine \<lparr>text_label = Some \<lparr>label_value = ''x'', label_local = False\<rparr>,
                        text_instruction = None\<rparr>))"
proof -
  let ?D = "parsed_data duplicate_program"
  let ?tx = "\<lparr>text_label = Some \<lparr>label_value = ''x'', label_local = False\<rparr>,
                        text_instruction = None\<rparr>"
  let ?rd = "([\<lparr>def_address = 0, def_size = 1, def_value = 1\<rparr>],
     \<lparr>textAddress = 0, dataAddress = 1, lineMap = [],
      labelResolver =
        \<lparr>labels = [(''x'', \<lparr>lbl_name = ''x'', lbl_local = False, lbl_address = 0\<rparr>)],
         unresolvedParameters = []\<rparr>\<rparr>)"
  have 1: "assembleDataSegment ?D AssemblyData_new = Inr ?rd"
    by (simp add: duplicate_program_def assembleDataSegment_def AssemblyData_new_def
        assembleMemoryDefinitions_def assembleLabel_def addLabel_def normalizeLabelName_def
        hasLabel_def lodash_has_def getAddress_def)
  have 2: "assembleTextLoop example_classes [] [] (snd ?rd) = Inr ([], snd ?rd)"
    by simp
  have 3: "''x'' \<in> set (global_names (map (\<lambda>t. data_label (line_of t)) ?D
                                   @ map (\<lambda>t. text_label (line_of t)) []))"
    by (simp add: duplicate_program_def)
  have 4: "\<lparr>parsed_text = [] @ \<lparr>start_line = 2, line_of = ?tx\<rparr> # [], parsed_data = ?D\<rparr>
             = duplicate_program"
    by (simp add: duplicate_program_def)
  from duplicate_label_fails [where D = ?D and rd = ?rd and ic = example_classes and pre = "[]"
      and rt = "([], snd ?rd)" and g = "''x''" and ?tx3.0 = ?tx
      and ?lb3.0 = "\<lparr>label_value = ''x'', label_local = False\<rparr>" and k = 2 and ?ts3.0 = "[]"]
    1 2 3
  have "assemble example_classes
          (Inr \<lparr>parsed_text = [] @ \<lparr>start_line = 2, line_of = ?tx\<rparr> # [], parsed_data = ?D\<rparr>)
         = Inl (AssemblyException (''Duplicate label found: '' @ ''x'') 2 (TextLine ?tx))"
    by simp
  then show ?thesis
    unfolding 4 by simp
qed

subsection \<open>Failures of a line\<close>

text \<open>
  Claim C8, as stated, fails: a failure that is not an \<open>AssemblyException\<close> leaves the
  pass as it is, without line number and parsed line. The \<open>TypeError\<close> raised for the
  label operand of \<open>JMP end\<close> on line 1 is an example.
\<close>

theorem type_error_is_not_wrapped:
  "assembleTextSegment example_classes (parsed_text forward_reference_program) AssemblyData_new
     = Inl (TypeError ''Cannot read property labelResolver of undefined'')"
  by (simp add: forward_reference_program_def assembleTextSegment_def assembleInstruction_def
      parseInstruction_def InstructionMapping_def loadParameters_def
      checkParameterCompatibility_def example_classes_def loadParameter_def
      parseLabelParameter_def rethrow_def lodash_has_def)

text \<open>
  Claim C8, amended. The \<open>catch\<close> block of each pass tests
  \<open>e instanceof AssemblyException\<close>. Every \<open>AssemblyException\<close> raised while a line is
  assembled, in either pass, is raised again with the message, the 1-based number of
  that line and the parsed line; every other failure is raised again unchanged. The
  first failing line ends the pass and the assembly: the lines after it do not matter.
\<close>

theorem assembly_exceptions_are_wrapped:
  "(assembleTextLoop ic pre ins d = Inr r \<and> assembleInstruction ic (line_of t) (snd r) = Inl e \<longrightarrow>
      assembleTextLoop ic (pre @ t # ts) ins d =
        Inl (case e of
               AssemblyException m k x \<Rightarrow> AssemblyException m (start_line t) (TextLine (line_of t))
             | TypeError m \<Rightarrow> TypeError m
             | RangeError m \<Rightarrow> RangeError m))
   \<and> (assembleDataLoop pre2 defs d2 = Inr r2
        \<and> assembleMemoryDefinitions (line_of t2) (snd r2) = Inl e2 \<longrightarrow>
      assembleDataLoop (pre2 @ t2 # ts2) defs d2 =
        Inl (case e2 of
               AssemblyException m k x \<Rightarrow> AssemblyException m (start_line t2) (DataLine (line_of t2))
             | TypeError m \<Rightarrow> TypeError m
             | RangeError m \<Rightarrow> RangeError m))
   \<and> (assembleDataSegment (parsed_data P) AssemblyData_new = Inl e3 \<longrightarrow>
        assemble ic (Inr P) = Inl e3)
   \<and> (assembleDataSegment (parsed_data P) AssemblyData_new = Inr rd
        \<and> assembleTextSegment ic (parsed_text P) (snd rd) = Inl e4 \<longrightarrow>
        assemble ic (Inr P) = Inl e4)"
proof (intro conjI impI)
  assume "assembleTextLoop ic pre ins d = Inr r \<and> assembleInstruction ic (line_of t) (snd r) = Inl e"
  then show "assembleTextLoop ic (pre @ t # ts) ins d =
        Inl (case e of
               AssemblyException m k x \<Rightarrow> AssemblyException m (start_line t) (TextLine (line_of t))
             | TypeError m \<Rightarrow> TypeError m
             | RangeError m \<Rightarrow> RangeError m)"
    using text_line_failure [of ic pre ins d r t e ts] by blast
next
  assume "assembleDataLoop pre2 defs d2 = Inr r2
        \<and> assembleMemoryDefinitions (line_of t2) (snd r2) = Inl e2"
  then show "assembleDataLoop (pre2 @ t2 # ts2) defs d2 =
        Inl (case e2 of
               AssemblyException m k x \<Rightarrow> AssemblyException m (start_line t2) (DataLine (line_of t2))
             | TypeError m \<Rightarrow> TypeError m
             | RangeError m \<Rightarrow> RangeError m)"
    using data_line_failure [of pre2 defs d2 r2 t2 e2 ts2] by blast
next
  assume "assembleDataSegment (parsed_data P) AssemblyData_new = Inl e3"
  then show "assemble ic (Inr P) = Inl e3"
    by (simp add: assemble_def)
next
  assume "assembleDataSegment (parsed_data P) AssemblyData_new = Inr rd
        \<and> assembleTextSegment ic (parsed_text P) (snd rd) = Inl e4"
  then show "assemble ic (Inr P) = Inl e4"
    by (simp add: assemble_def)
qed

theorem assembly_exceptions_are_wrapped_witness:
  "assemble example_classes (Inr unknown_instruction_program)
     = Inl (AssemblyException ''Unknown instruction type Instruction'' 2
             (TextLine \<lparr>text_label = None,
                        text_instruction =
                          Some \<lparr>instr_type = ''Instruction'', instr_name = ''FOO'',
                                instr_operands = []\<rparr>\<rparr>))"
proof -
  let ?mov = "\<lparr>start_line = 1,
          line_of = \<lparr>text_label = None,
                     text_instruction =
                       Some \<lparr>instr_type = ''Instruction'', instr_name = ''MOV'',
                             instr_operands = [RegOperand ''EAX'', ConstantOperand 5 False]\<rparr>\<rparr>\<rparr>"
  let ?foo = "\<lparr>start_line = 2,
          line_of = \<lparr>text_label = None,
                     text_instruction =
                       Some \<lparr>instr_type = ''Instruction'', instr_name = ''FOO'',
                             instr_operands = []\<rparr>\<rparr>\<rparr>"
  let ?bar = "\<lparr>start_line = 3,
          line_of = \<lparr>text_label = None,
                     text_instruction =
                       Some \<lparr>instr_type = ''Instruction'', instr_name = ''BAR'',
                             instr_operands = []\<rparr>\<rparr>\<rparr>"
  let ?r = "([\<lparr>enc_instruction = Move,
              enc_parameters = [RegisterParameter 4 20, ConstantParameter 4 5 False]\<rparr>],
            \<lparr>textAddress = 1, dataAddress = 0, lineMap = [(0, 0)],
              labelResolver = \<lparr>labels = [], unresolvedParameters = []\<rparr>\<rparr>)"
  let ?e = "AssemblyException ''Unknown instruction type Instruction'' 0 NoData"
  have 1: "assembleTextLoop example_classes [?mov] [] AssemblyData_new = Inr ?r"
    by (simp add: AssemblyData_new_def assembleInstruction_def parseInstruction_def
      InstructionMapping_def loadParameters_def checkParameterCompatibility_def
      example_classes_def loadParameter_def parseRegisterParameter_def parseRegisterName_def
      lodash_has_def
      registerId_def REGISTER_INDEX_def RegisterInfo_new_def parseConstantParameter_def
      mapLine_def)
  have 2: "assembleInstruction example_classes (line_of ?foo) (snd ?r) = Inl ?e"
    by (simp add: assembleInstruction_def parseInstruction_def InstructionMapping_def
        lodash_has_def)
  have 3: "assembleDataSegment (parsed_data unknown_instruction_program) AssemblyData_new
             = Inr ([], AssemblyData_new)"
    by (simp add: unknown_instruction_program_def assembleDataSegment_def)
  have 4: "parsed_text unknown_instruction_program = [?mov] @ ?foo # [?bar]"
    by (simp add: unknown_instruction_program_def)
  from assembly_exceptions_are_wrapped [where ic = example_classes and pre = "[?mov]"
      and ins = "[]" and d = AssemblyData_new and r = ?r and t = ?foo and e = ?e and ts = "[?bar]"]
    1 2
  have "assembleTextLoop example_classes ([?mov] @ ?foo # [?bar]) [] AssemblyData_new
          = Inl (AssemblyException ''Unknown instruction type Instruction'' 2 (TextLine (line_of ?foo)))"
    by simp
  then have 5: "assembleTextSegment example_classes (parsed_text unknown_instruction_program)
                  (snd ([] :: MemoryDefinition list, AssemblyData_new))
          = Inl (AssemblyException ''Unknown instruction type Instruction'' 2 (TextLine (line_of ?foo)))"
    unfolding 4 by (simp add: assembleTextSegment_def)
  from assembly_exceptions_are_wrapped [where ic = example_classes
      and P = unknown_instruction_program and rd = "([], AssemblyData_new)"
      and ?e4.0 = "AssemblyException ''Unknown instruction type Instruction'' 2 (TextLine (line_of ?foo))"]
    3 5
  show ?thesis
    by simp
qed

end
